theory Spec2Isabelle
  imports Complex_Main
begin

section \<open>JavaScript values of the pricing response\<close>

text \<open>
  The body of the pricing provider's HTTP response is whatever \<^verbatim>\<open>axios\<close> parsed: a JSON
  value, or the raw text when the body was not JSON. Reading a property that is not there
  gives \<^verbatim>\<open>undefined\<close>. A JavaScript number is represented by the real it denotes; the
  code only tests numbers for truthiness and passes them on.
\<close>

datatype jsval =
    JUndefined
  | JNull
  | JBool bool
  | JNum real
  | JStr string
  | JArr "jsval list"
  | JObj "(string \<times> jsval) list"

text \<open>JavaScript truthiness, as used by \<^verbatim>\<open>if (v)\<close>, \<^verbatim>\<open>a && b\<close> and \<^verbatim>\<open>a || b\<close>.\<close>

fun truthy :: "jsval \<Rightarrow> bool" where
  "truthy JUndefined = False"
| "truthy JNull = False"
| "truthy (JBool b) = b"
| "truthy (JNum x) = (x \<noteq> 0)"
| "truthy (JStr s) = (s \<noteq> [])"
| "truthy (JArr vs) = True"
| "truthy (JObj kvs) = True"

text \<open>
  An array index as a property key: the decimal numeral of the index, without leading
  zeros.
\<close>

definition arrayIndex :: "string \<Rightarrow> nat option" where
  "arrayIndex k =
     (if k \<noteq> [] \<and> list_all (\<lambda>c. c \<in> set ''0123456789'') k \<and> (hd k \<noteq> CHR ''0'' \<or> k = ''0'')
      then Some (foldl (\<lambda>n c. n * 10 + (of_char c - 48)) 0 k)
      else None)"

text \<open>
  Property read \<^verbatim>\<open>v[k]\<close>. Every read in \<^verbatim>\<open>getTokenPrices\<close> is made on a value that an
  enclosing \<^verbatim>\<open>&&\<close> has already found truthy, so the TypeError of a read on
  \<^verbatim>\<open>undefined\<close> or \<^verbatim>\<open>null\<close> cannot arise there. The properties a primitive, an
  array or an object inherits from its prototype (\<^verbatim>\<open>length\<close>, \<^verbatim>\<open>constructor\<close>, ...)
  carry no \<^verbatim>\<open>quote\<close> property and so take the same branches as \<^verbatim>\<open>undefined\<close>; they
  are read as \<^verbatim>\<open>undefined\<close>.
\<close>

fun getProp :: "jsval \<Rightarrow> string \<Rightarrow> jsval" where
  "getProp (JObj kvs) k = (case map_of kvs k of Some v \<Rightarrow> v | None \<Rightarrow> JUndefined)"
| "getProp (JArr vs) k =
     (case arrayIndex k of
        Some i \<Rightarrow> if i < length vs then vs ! i else JUndefined
      | None \<Rightarrow> JUndefined)"
| "getProp v k = JUndefined"

text \<open>\<^verbatim>\<open>a || b\<close>\<close>

definition js_or :: "jsval \<Rightarrow> jsval \<Rightarrow> jsval" where
  "js_or a b = (if truthy a then a else b)"

text \<open>
  \<^verbatim>\<open>v.toFixed(2)\<close> returns a string when \<^verbatim>\<open>v\<close> is a number and throws a TypeError for
  every other value (\<^verbatim>\<open>undefined\<close>, \<^verbatim>\<open>null\<close>, strings, booleans, objects).
\<close>

fun isNumber :: "jsval \<Rightarrow> bool" where
  "isNumber (JNum x) = True"
| "isNumber v = False"

text \<open>
  Whether \<^verbatim>\<open>`${v}`\<close> yields a string; otherwise it throws a TypeError. A primitive
  always prints. An object parsed from JSON prints as \<^verbatim>\<open>[object Object]\<close> unless it has
  a property of its own named \<^verbatim>\<open>toString\<close>, which is then not a function: the
  conversion falls back to \<^verbatim>\<open>valueOf\<close>, gets no primitive and throws. An array prints
  its elements joined with commas.
\<close>

fun printable :: "jsval \<Rightarrow> bool" where
  "printable (JObj kvs) = (map_of kvs ''toString'' = None)"
| "printable (JArr vs) = list_all printable vs"
| "printable v = True"

section \<open>Strings\<close>

text \<open>
  \<^verbatim>\<open>String.prototype.toLowerCase\<close> on the ASCII letters; token addresses are ASCII
  (\<^verbatim>\<open>0x\<close> and hexadecimal digits). Other characters are left as they are.
\<close>

definition lowerChar :: "char \<Rightarrow> char" where
  "lowerChar c =
     (case map_of (zip ''ABCDEFGHIJKLMNOPQRSTUVWXYZ'' ''abcdefghijklmnopqrstuvwxyz'') c of
        Some d \<Rightarrow> d
      | None \<Rightarrow> c)"

definition toLowerCase :: "string \<Rightarrow> string" where
  "toLowerCase s = map lowerChar s"

text \<open>\<^verbatim>\<open>Array.prototype.join(',')\<close>\<close>

fun join_comma :: "string list \<Rightarrow> string" where
  "join_comma [] = []"
| "join_comma [x] = x"
| "join_comma (x # y # ys) = x @ '','' @ join_comma (y # ys)"

section \<open>PriceService\<close>

record PriceData =
  address :: string
  symbol :: jsval
  priceUsd :: jsval
  timestamp :: int

text \<open>
  The fields of the class: the API key and the cache, a \<^verbatim>\<open>Map<string, PriceData>\<close>.
  The key is \<^verbatim>\<open>apiKey || process.env.COINMARKETCAP_API_KEY || ''\<close>, so a missing
  credential is the empty string, the only falsy string.
\<close>

record PriceService =
  apiKey :: string
  priceCache :: "string \<rightharpoonup> PriceData"

definition CACHE_TTL_MS :: int where
  "CACHE_TTL_MS = 60000"

text \<open>
  \<^verbatim>\<open>getCachedPrice(address)\<close>; \<open>now\<close> is the reading of \<^verbatim>\<open>Date.now()\<close>. The method
  only reads the cache.
\<close>

definition getCachedPrice :: "PriceService \<Rightarrow> int \<Rightarrow> string \<Rightarrow> PriceData option" where
  "getCachedPrice s now addr =
     (case priceCache s (toLowerCase addr) of
        None \<Rightarrow> None
      | Some cached \<Rightarrow>
          if now - timestamp cached > CACHE_TTL_MS then None else Some cached)"

definition clearCache :: "PriceService \<Rightarrow> PriceService" where
  "clearCache s = s\<lparr>priceCache := Map.empty\<rparr>"

text \<open>
  The outcome of \<^verbatim>\<open>await axios.get(...)\<close>: the promise rejects (timeout after 10 s,
  network error, a status outside 2xx), or it resolves to a response whose \<^verbatim>\<open>data\<close>
  field is the parsed body.
\<close>

datatype http_outcome = Rejected | Resolved jsval

text \<open>
  The first loop of \<^verbatim>\<open>getTokenPrices\<close>: cache hits go into \<^verbatim>\<open>result\<close>, misses are
  pushed onto \<^verbatim>\<open>uncachedAddresses\<close>.
\<close>

fun checkCache ::
  "PriceService \<Rightarrow> int \<Rightarrow> string list \<Rightarrow> (string \<rightharpoonup> jsval) \<Rightarrow> string list
     \<Rightarrow> (string \<rightharpoonup> jsval) \<times> string list" where
  "checkCache s now [] result uncached = (result, uncached)"
| "checkCache s now (a # rest) result uncached =
     (case getCachedPrice s now a of
        Some cached \<Rightarrow> checkCache s now rest (result(a \<mapsto> priceUsd cached)) uncached
      | None \<Rightarrow> checkCache s now rest result (uncached @ [a]))"

text \<open>The guard \<^verbatim>\<open>tokenData && tokenData.quote && tokenData.quote.USD\<close>.\<close>

definition hasUsdQuote :: "jsval \<Rightarrow> string \<Rightarrow> bool" where
  "hasUsdQuote data a =
     (let tokenData = getProp data a in
      truthy tokenData \<and> truthy (getProp tokenData ''quote'')
        \<and> truthy (getProp (getProp tokenData ''quote'') ''USD''))"

text \<open>\<^verbatim>\<open>tokenData.quote.USD.price\<close>\<close>

definition quotePrice :: "jsval \<Rightarrow> string \<Rightarrow> jsval" where
  "quotePrice data a = getProp (getProp (getProp (getProp data a) ''quote'') ''USD'') ''price''"

text \<open>\<^verbatim>\<open>tokenData.symbol || 'UNKNOWN'\<close>\<close>

definition quoteSymbol :: "jsval \<Rightarrow> string \<Rightarrow> jsval" where
  "quoteSymbol data a = js_or (getProp (getProp data a) ''symbol'') (JStr ''UNKNOWN'')"

text \<open>
  The log line \<^verbatim>\<open>`Fetched ${symbol} (${address}): $${priceUsd.toFixed(2)}`\<close> of a quoted
  address is built without a TypeError.
\<close>

definition logLinePrints :: "jsval \<Rightarrow> string \<Rightarrow> bool" where
  "logLinePrints data a = (printable (quoteSymbol data a) \<and> isNumber (quotePrice data a))"

datatype completion = Normal | ThrewTypeError

text \<open>
  The second loop, over \<^verbatim>\<open>uncachedAddresses\<close>, inside the \<^verbatim>\<open>try\<close>. For an address
  with a USD quote the cache is written, then the result, then the log line is built from
  the symbol and \<^verbatim>\<open>priceUsd.toFixed(2)\<close>, which throws when the symbol does not print or
  the price is not a number: the loop stops there, with both writes done. \<open>now\<close> is the
  reading of \<^verbatim>\<open>Date.now()\<close> in this loop.
\<close>

fun storePrices ::
  "jsval \<Rightarrow> int \<Rightarrow> string list \<Rightarrow> (string \<rightharpoonup> PriceData) \<Rightarrow> (string \<rightharpoonup> jsval)
     \<Rightarrow> completion \<times> (string \<rightharpoonup> PriceData) \<times> (string \<rightharpoonup> jsval)" where
  "storePrices data now [] cache result = (Normal, cache, result)"
| "storePrices data now (a # rest) cache result =
     (if hasUsdQuote data a then
        (let price = quotePrice data a;
             sym = quoteSymbol data a;
             cache' = cache(a \<mapsto> \<lparr>address = a, symbol = sym, priceUsd = price, timestamp = now\<rparr>);
             result' = result(a \<mapsto> price)
         in if printable sym \<and> isNumber price then storePrices data now rest cache' result'
            else (ThrewTypeError, cache', result'))
      else storePrices data now rest cache (result(a \<mapsto> JNum 0)))"

text \<open>\<^verbatim>\<open>addrs.forEach((addr) => result.set(addr, 0))\<close>\<close>

fun zeroAll :: "string list \<Rightarrow> (string \<rightharpoonup> jsval) \<Rightarrow> (string \<rightharpoonup> jsval)" where
  "zeroAll [] result = result"
| "zeroAll (a # rest) result = zeroAll rest (result(a \<mapsto> JNum 0))"

text \<open>
  What a call of \<^verbatim>\<open>getTokenPrices\<close> leaves behind: the returned map, the service with its
  cache, and the \<^verbatim>\<open>address\<close> parameter of the one \<^verbatim>\<open>axios.get\<close> it made, if it made one.
\<close>

record call_result =
  prices :: "string \<rightharpoonup> jsval"
  service :: PriceService
  remoteCall :: "string option"

text \<open>
  \<^verbatim>\<open>getTokenPrices(addresses, chainId)\<close>. \<open>axios_get\<close> is the pricing provider, a function
  of the \<^verbatim>\<open>address\<close> parameter sent; \<open>tCheck\<close> and \<open>tStore\<close> are the readings of
  \<^verbatim>\<open>Date.now()\<close> in the cache-check loop and, after the \<^verbatim>\<open>await\<close>, in the store loop;
  each loop runs without awaiting and is given one reading of the clock. The platform name
  looked up from \<open>chainId\<close> is computed by the source but is not part of the request it
  sends, so \<open>chainId\<close> has no effect.
\<close>

definition getTokenPrices ::
  "(string \<Rightarrow> http_outcome) \<Rightarrow> int \<Rightarrow> int \<Rightarrow> PriceService \<Rightarrow> string list \<Rightarrow> int
     \<Rightarrow> call_result" where
  "getTokenPrices axios_get tCheck tStore s addresses chainId =
     (if apiKey s = [] then
        \<lparr>prices = zeroAll (map toLowerCase addresses) Map.empty, service = s, remoteCall = None\<rparr>
      else
        (let normalizedAddresses = map toLowerCase addresses;
             checked = checkCache s tCheck normalizedAddresses Map.empty [];
             result = fst checked;
             uncachedAddresses = snd checked
         in if uncachedAddresses = [] then
              \<lparr>prices = result, service = s, remoteCall = None\<rparr>
            else
              (let addressParam = join_comma uncachedAddresses
               in case axios_get addressParam of
                    Rejected \<Rightarrow>
                      \<lparr>prices = zeroAll uncachedAddresses result, service = s,
                       remoteCall = Some addressParam\<rparr>
                  | Resolved body \<Rightarrow>
                      if truthy body \<and> truthy (getProp body ''data'') then
                        (case storePrices (getProp body ''data'') tStore uncachedAddresses
                                (priceCache s) result of
                           (Normal, cache', result') \<Rightarrow>
                             \<lparr>prices = result', service = s\<lparr>priceCache := cache'\<rparr>,
                              remoteCall = Some addressParam\<rparr>
                         | (ThrewTypeError, cache', result') \<Rightarrow>
                             \<lparr>prices = zeroAll uncachedAddresses result',
                              service = s\<lparr>priceCache := cache'\<rparr>,
                              remoteCall = Some addressParam\<rparr>)
                      else
                        \<lparr>prices = result, service = s, remoteCall = Some addressParam\<rparr>)))"

text \<open>The entry that the store loop writes into the cache for a quoted address.\<close>

definition cacheEntry :: "jsval \<Rightarrow> int \<Rightarrow> string \<Rightarrow> PriceData" where
  "cacheEntry data now a =
     \<lparr>address = a,
      symbol = quoteSymbol data a,
      priceUsd = quotePrice data a,
      timestamp = now\<rparr>"

text \<open>
  The list \<^verbatim>\<open>uncachedAddresses\<close> that a call builds, and the addresses of the remote
  request it sends: none without an API key.
\<close>

definition uncachedAddresses :: "PriceService \<Rightarrow> int \<Rightarrow> string list \<Rightarrow> string list" where
  "uncachedAddresses s tCheck addresses =
     snd (checkCache s tCheck (map toLowerCase addresses) Map.empty [])"

definition remoteAddresses :: "PriceService \<Rightarrow> int \<Rightarrow> string list \<Rightarrow> string list" where
  "remoteAddresses s tCheck addresses =
     (if apiKey s = [] then [] else uncachedAddresses s tCheck addresses)"


section \<open>The positions route\<close>

text \<open>
  \<^verbatim>\<open>GET /api/v4/positions/:walletAddress?chainId=...\<close>, registered by
  \<^verbatim>\<open>createRouter\<close> when a \<^verbatim>\<open>UniswapV4Service\<close> is passed. A string of the query is
  the list of its UTF-16 code units, so that every character a request can carry is there;
  \<open>codeUnits\<close> writes an ASCII literal as such a list.
\<close>

type_synonym jsstring = "nat list"

definition codeUnits :: "string \<Rightarrow> jsstring" where
  "codeUnits s = map of_char s"

text \<open>\<^verbatim>\<open>Array.prototype.join(',')\<close> on strings of code units.\<close>

fun joinComma :: "jsstring list \<Rightarrow> jsstring" where
  "joinComma [] = []"
| "joinComma [x] = x"
| "joinComma (x # y # ys) = x @ codeUnits '','' @ joinComma (y # ys)"

text \<open>
  The query parameter, as Express parses it, is absent, a string, an array (a repeated
  key) or an object (\<^verbatim>\<open>chainId[k]=v\<close>) with its own keys and their values.
\<close>

datatype query_value =
    QStr jsstring
  | QArr "query_value list"
  | QObj "(jsstring \<times> query_value) list"

text \<open>
  \<^verbatim>\<open>String(v)\<close>; \<open>None\<close> is a thrown TypeError. A string is itself. An object prints as
  \<^verbatim>\<open>[object Object]\<close> unless it has a key of its own named \<^verbatim>\<open>toString\<close>: its value is
  not a function, the conversion falls back to \<^verbatim>\<open>valueOf\<close>, gets no primitive and
  throws. An array prints its elements joined with commas, and throws when printing an
  element throws.
\<close>

fun js_String :: "query_value \<Rightarrow> jsstring option" where
  "js_String (QStr s) = Some s"
| "js_String (QArr vs) = map_option joinComma (those (map js_String vs))"
| "js_String (QObj kvs) =
     (if map_of kvs (codeUnits ''toString'') = None
      then Some (codeUnits ''[object Object]'') else None)"

text \<open>\<^verbatim>\<open>if (chainIdParam)\<close> for a parameter that is there: the empty string is falsy.\<close>

fun paramTruthy :: "query_value \<Rightarrow> bool" where
  "paramTruthy (QStr s) = (s \<noteq> [])"
| "paramTruthy v = True"

text \<open>
  The string handed to \<^verbatim>\<open>parseInt\<close>: the parameter itself, or \<^verbatim>\<open>String\<close> of the
  first element of an array (\<^verbatim>\<open>undefined\<close> for an empty one), or \<^verbatim>\<open>String\<close> of the
  object. \<open>None\<close> is the TypeError that \<^verbatim>\<open>String\<close> throws.
\<close>

fun chainIdStr :: "query_value \<Rightarrow> jsstring option" where
  "chainIdStr (QStr s) = Some s"
| "chainIdStr (QArr []) = Some (codeUnits ''undefined'')"
| "chainIdStr (QArr (v # vs)) = js_String v"
| "chainIdStr (QObj kvs) = js_String (QObj kvs)"

text \<open>
  \<^verbatim>\<open>parseInt(s, 10)\<close>: leading white space is skipped, one sign is read, then the longest
  run of decimal digits; with no digit the result is \<^verbatim>\<open>NaN\<close>, here \<open>None\<close>. What
  follows the digits is ignored. White space is what ECMAScript trims: tab, line feed,
  vertical tab, form feed, carriage return, space, U+00A0, U+1680, U+2000 to U+200A,
  U+2028, U+2029, U+202F, U+205F, U+3000 and U+FEFF. The value is the exact integer: a
  run of digits too long for a double is rounded by JavaScript to a number far above every
  chain id, so the test against the supported ids is the same.
\<close>

definition isWhiteSpace :: "nat \<Rightarrow> bool" where
  "isWhiteSpace c =
     (c \<in> set [0x09, 0x0A, 0x0B, 0x0C, 0x0D, 0x20, 0xA0, 0x1680,
                0x2000, 0x2001, 0x2002, 0x2003, 0x2004, 0x2005, 0x2006, 0x2007, 0x2008,
                0x2009, 0x200A, 0x2028, 0x2029, 0x202F, 0x205F, 0x3000, 0xFEFF])"

definition isDigit :: "nat \<Rightarrow> bool" where
  "isDigit c = (48 \<le> c \<and> c \<le> 57)"

definition digitValue :: "nat \<Rightarrow> int" where
  "digitValue c = int c - 48"

definition digitsValue :: "jsstring \<Rightarrow> int" where
  "digitsValue ds = foldl (\<lambda>acc c. acc * 10 + digitValue c) 0 ds"

definition parseInt10 :: "jsstring \<Rightarrow> int option" where
  "parseInt10 s =
     (let t = dropWhile isWhiteSpace s;
          negative = (t \<noteq> [] \<and> hd t = of_char CHR ''-'');
          signed = (t \<noteq> [] \<and> (hd t = of_char CHR ''-'' \<or> hd t = of_char CHR ''+''));
          ds = takeWhile isDigit (if signed then tl t else t)
      in if ds = [] then None
         else Some (if negative then - digitsValue ds else digitsValue ds))"

text \<open>The test \<^verbatim>\<open>/^0x[a-fA-F0-9]{40}$/.test(walletAddress)\<close>.\<close>

definition isHexDigit :: "nat \<Rightarrow> bool" where
  "isHexDigit c = (c \<in> set (codeUnits ''abcdefABCDEF0123456789''))"

definition matchesAddress :: "jsstring \<Rightarrow> bool" where
  "matchesAddress w =
     (take 2 w = codeUnits ''0x'' \<and> length (drop 2 w) = 40 \<and> list_all isHexDigit (drop 2 w))"

definition SUPPORTED_CHAIN_IDS :: "int list" where
  "SUPPORTED_CHAIN_IDS = [1, 56, 8453, 42161, 1301]"

text \<open>
  \<^verbatim>\<open>ErrorCodes\<close> comes from \<^verbatim>\<open>core/types\<close>; the route uses these two members. The
  response is the status passed to \<^verbatim>\<open>res.status\<close> and the fields of the
  \<^verbatim>\<open>ApiResponse\<close> envelope that an error response sets.
\<close>

datatype ErrorCode = INVALID_REQUEST | INTERNAL_ERROR

record ErrorResponse =
  httpStatus :: nat
  responseSuccess :: bool
  responseMessage :: string
  responseError :: ErrorCode

text \<open>
  The handler up to its call of the core: it answers with an error response and returns,
  or \<^verbatim>\<open>String\<close> throws and the handler ends there, having sent no response and made no
  call, or it calls \<^verbatim>\<open>uniswapV4Service.getPositions(walletAddress, chainId)\<close>, with
  \<^verbatim>\<open>chainId\<close> left \<^verbatim>\<open>undefined\<close> when no parameter was given.
\<close>

datatype route_step =
    Respond ErrorResponse
  | ThrowsTypeError
  | CallGetPositions jsstring "int option"

definition invalidAddress :: ErrorResponse where
  "invalidAddress =
     \<lparr>httpStatus = 400, responseSuccess = False,
      responseMessage = ''Invalid wallet address format'',
      responseError = INVALID_REQUEST\<rparr>"

definition invalidChainId :: ErrorResponse where
  "invalidChainId =
     \<lparr>httpStatus = 400, responseSuccess = False,
      responseMessage = ''Invalid chainId. Supported: 1, 56, 8453, 42161, 1301'',
      responseError = INVALID_REQUEST\<rparr>"

definition positionsHandler :: "jsstring \<Rightarrow> query_value option \<Rightarrow> route_step" where
  "positionsHandler walletAddress chainIdParam =
     (if walletAddress = [] \<or> \<not> matchesAddress walletAddress then Respond invalidAddress
      else
        (case chainIdParam of
           None \<Rightarrow> CallGetPositions walletAddress None
         | Some v \<Rightarrow>
             if paramTruthy v then
               (case chainIdStr v of
                  None \<Rightarrow> ThrowsTypeError
                | Some str \<Rightarrow>
                    (case parseInt10 str of
                       None \<Rightarrow> Respond invalidChainId
                     | Some n \<Rightarrow>
                         if n \<notin> set SUPPORTED_CHAIN_IDS then Respond invalidChainId
                         else CallGetPositions walletAddress (Some n)))
             else CallGetPositions walletAddress None))"

section \<open>The position aggregator\<close>

text \<open>
  Modelled from the spec: the data model of \<^verbatim>\<open>UniswapV4Service\<close> (section 3 of the
  specification). \<^verbatim>\<open>src/core/UniswapV4Service.ts\<close> and \<^verbatim>\<open>src/core/types.ts\<close> are
  not among the sources; only the service's unit tests are. An asset leg, with the amount
  as the number its decimal string denotes.
\<close>

record AssetLeg =
  tokenAddress :: string
  legSymbol :: string
  amount :: real
  decimals :: nat
  usdValue :: real

text \<open>Modelled from the spec: a liquidity position on one chain.\<close>

record Position =
  tokenId :: string
  chainId :: int
  poolAddress :: string
  token0 :: AssetLeg
  token1 :: AssetLeg
  liquidity :: string
  tickLower :: int
  tickUpper :: int
  feesUsd :: real
  positionValueUsd :: real

text \<open>Modelled from the spec: an entry of \<^verbatim>\<open>chainErrors\<close>.\<close>

record ChainError =
  errorChainId :: int
  errorText :: string

text \<open>Modelled from the spec: the aggregation result.\<close>

record AggregationResult =
  success :: bool
  positions :: "Position list"
  totalValueUsd :: real
  totalFeesUsd :: real
  chainErrors :: "ChainError list"

text \<open>
  Modelled from the spec: step 2 of the aggregator, the chain set: the single requested
  chain, or the full supported set of five chains.
\<close>

definition resolveChains :: "int option \<Rightarrow> int list" where
  "resolveChains filter_chain =
     (case filter_chain of Some c \<Rightarrow> [c] | None \<Rightarrow> SUPPORTED_CHAIN_IDS)"

text \<open>
  Modelled from the spec: steps 3 and 4. One fetch per chain of the chain set, each run to
  completion; \<open>fetchChain c\<close> is the outcome of the chain's \<^verbatim>\<open>ChainPositionFetcher\<close>, the
  positions or the failure reason. A success appends its positions, a failure appends an
  entry to \<^verbatim>\<open>chainErrors\<close>. The spec fixes no order between chains; the chain set's order
  is used.
\<close>

fun collectChains ::
  "(int \<Rightarrow> string + Position list) \<Rightarrow> int list \<Rightarrow> Position list \<times> ChainError list" where
  "collectChains fetchChain [] = ([], [])"
| "collectChains fetchChain (c # cs) =
     (case fetchChain c of
        Inr found \<Rightarrow> (found @ fst (collectChains fetchChain cs), snd (collectChains fetchChain cs))
      | Inl reason \<Rightarrow>
          (fst (collectChains fetchChain cs),
           \<lparr>errorChainId = c, errorText = reason\<rparr> # snd (collectChains fetchChain cs)))"

text \<open>
  Modelled from the spec: step 5, the distinct lowercased token addresses of the two asset
  legs of the positions found on one chain.
\<close>

definition chainTokenAddresses :: "Position list \<Rightarrow> int \<Rightarrow> string list" where
  "chainTokenAddresses ps c =
     remdups (concat (map (\<lambda>p. [toLowerCase (tokenAddress (token0 p)),
                                   toLowerCase (tokenAddress (token1 p))])
                          (filter (\<lambda>p. chainId p = c) ps)))"

text \<open>
  Modelled from the spec: step 6 for one asset leg. \<open>priceOf\<close> is the map the pricing
  client returned for the position's chain, an address without an entry counting as 0,
  "no data". The leg's \<^verbatim>\<open>usdValue\<close> is \<open>amount \<times> priceUsd\<close>; \<^verbatim>\<open>feesUsd\<close> is carried
  through.
\<close>

definition priceLeg :: "(string \<rightharpoonup> real) \<Rightarrow> AssetLeg \<Rightarrow> AssetLeg" where
  "priceLeg priceOf leg =
     leg\<lparr>usdValue := amount leg *
            (case priceOf (toLowerCase (tokenAddress leg)) of Some price \<Rightarrow> price | None \<Rightarrow> 0)\<rparr>"

text \<open>
  Modelled from the spec: step 6, the two legs of a position priced and its total value
  recomputed as their sum.
\<close>

definition pricePosition :: "(string \<rightharpoonup> real) \<Rightarrow> Position \<Rightarrow> Position" where
  "pricePosition priceOf p =
     p\<lparr>token0 := priceLeg priceOf (token0 p),
       token1 := priceLeg priceOf (token1 p),
       positionValueUsd := usdValue (priceLeg priceOf (token0 p))
                             + usdValue (priceLeg priceOf (token1 p))\<rparr>"

text \<open>
  Modelled from the spec: \<^verbatim>\<open>getPositions(walletAddress, chainId?)\<close>, steps 2 to 8.
  \<open>fetch\<close> is the per-chain fetcher and \<open>pricing c addrs\<close> the pricing client's answer for
  the address set of chain \<open>c\<close>. The result is always marked successful.
\<close>

definition getPositions ::
  "(string \<Rightarrow> int \<Rightarrow> string + Position list) \<Rightarrow> (int \<Rightarrow> string list \<Rightarrow> (string \<rightharpoonup> real))
     \<Rightarrow> string \<Rightarrow> int option \<Rightarrow> AggregationResult" where
  "getPositions fetch pricing walletAddress filter_chain =
     (let chains = resolveChains filter_chain;
          collected = collectChains (fetch walletAddress) chains;
          found = fst collected;
          priced = map (\<lambda>p. pricePosition
                          (pricing (chainId p) (chainTokenAddresses found (chainId p))) p) found
      in \<lparr>success = True,
          positions = priced,
          totalValueUsd = sum_list (map positionValueUsd priced),
          totalFeesUsd = sum_list (map feesUsd priced),
          chainErrors = snd collected\<rparr>)"

section \<open>Fixtures of the unit tests\<close>

text \<open>
  The services and the mocked provider of the repository's PriceService tests:
  \<^verbatim>\<open>new PriceService('test-api-key')\<close>, a service without a key,
  \<^verbatim>\<open>mockResolvedValueOnce\<close> and \<^verbatim>\<open>mockRejectedValueOnce\<close>.
\<close>

definition testService :: PriceService where
  "testService = \<lparr>apiKey = ''test-api-key'', priceCache = Map.empty\<rparr>"

definition serviceNoKey :: PriceService where
  "serviceNoKey = \<lparr>apiKey = [], priceCache = Map.empty\<rparr>"

definition mockToken :: "string \<Rightarrow> real \<Rightarrow> jsval" where
  "mockToken name p =
     JObj [(''symbol'', JStr name), (''quote'', JObj [(''USD'', JObj [(''price'', JNum p)])])]"

definition mockResponse :: jsval where
  "mockResponse =
     JObj [(''data'', JObj [(''0xtoken1'', mockToken ''WETH'' 3000),
                            (''0xtoken2'', mockToken ''USDC'' 1)])]"

definition mockResponseMissing :: jsval where
  "mockResponseMissing = JObj [(''data'', JObj [(''0xtoken1'', mockToken ''WETH'' 3000)])]"

definition axiosResolves :: "jsval \<Rightarrow> string \<Rightarrow> http_outcome" where
  "axiosResolves body addressParam = Resolved body"

definition axiosRejects :: "string \<Rightarrow> http_outcome" where
  "axiosRejects addressParam = Rejected"

text \<open>The test service after it has fetched and cached \<^verbatim>\<open>0xtoken1\<close> at time 0.\<close>

definition cachedService :: PriceService where
  "cachedService =
     \<lparr>apiKey = ''test-api-key'',
      priceCache = [''0xtoken1'' \<mapsto>
        \<lparr>address = ''0xtoken1'', symbol = JStr ''WETH'', priceUsd = JNum 3000, timestamp = 0\<rparr>]\<rparr>"

text \<open>A 2xx response whose JSON body carries a status block and no \<^verbatim>\<open>data\<close>.\<close>

definition bodyWithoutData :: jsval where
  "bodyWithoutData = JObj [(''status'', JObj [(''error_code'', JNum 0)])]"

text \<open>
  A response that quotes \<^verbatim>\<open>0xtoken1\<close> at 3000 and carries a USD quote for
  \<^verbatim>\<open>0xtoken2\<close> whose price is \<^verbatim>\<open>null\<close>.
\<close>

definition mockResponseNullPrice :: jsval where
  "mockResponseNullPrice =
     JObj [(''data'', JObj [(''0xtoken1'', mockToken ''WETH'' 3000),
                            (''0xtoken2'', JObj [(''symbol'', JStr ''OLD''),
                               (''quote'', JObj [(''USD'', JObj [(''price'', JNull)])])])])]"

text \<open>The wallet of the integration guide's examples.\<close>

definition exampleWallet :: jsstring where
  "exampleWallet = codeUnits ''0xd8dA6BF26964aF9D7eEd9e03E53415D37aA96045''"

text \<open>
  The mocks of the \<^verbatim>\<open>UniswapV4Service\<close> tests: a wallet address of zeros, a fetcher
  that rejects (\<^verbatim>\<open>mockRejectedValueOnce(new Error('GraphQL query failed'))\<close>), and the
  mocked price service with its two prices.
\<close>

definition zeroWallet :: string where
  "zeroWallet = ''0x0000000000000000000000000000000000000000''"

definition fetchRejects :: "string \<Rightarrow> int \<Rightarrow> string + Position list" where
  "fetchRejects walletAddress c = Inl ''GraphQL query failed''"

definition mockPricing :: "int \<Rightarrow> string list \<Rightarrow> (string \<rightharpoonup> real)" where
  "mockPricing c addrs =
     [''0xc02aaa39b223fe8d0a0e5c4f27ead9083c756cc2'' \<mapsto> 3000,
      ''0xa0b86991c6218b36c1d19d4a2e9eb0ce3606eb48'' \<mapsto> 1]"

section \<open>Properties of the loops\<close>

lemma lowerChar_idem: "lowerChar (lowerChar c) = lowerChar c"
  by (simp add: lowerChar_def split: if_splits)

lemma toLowerCase_idem: "toLowerCase (toLowerCase s) = toLowerCase s"
  by (simp add: toLowerCase_def lowerChar_idem)

lemma getCachedPrice_lower: "getCachedPrice s now (toLowerCase a) = getCachedPrice s now a"
  by (simp add: getCachedPrice_def toLowerCase_idem)

lemma snd_checkCache:
  "snd (checkCache s now as result unc) = unc @ filter (\<lambda>a. getCachedPrice s now a = None) as"
  by (induction as arbitrary: result unc) (auto split: option.splits)

lemma fst_checkCache:
  "fst (checkCache s now as result unc) k =
     (if k \<in> set as \<and> getCachedPrice s now k \<noteq> None
      then map_option priceUsd (getCachedPrice s now k) else result k)"
  by (induction as arbitrary: result unc) (auto split: option.splits)

lemma zeroAll_apply:
  "zeroAll as result k = (if k \<in> set as then Some (JNum 0) else result k)"
  by (induction as arbitrary: result) auto

lemma storePrices_Cons_quote:
  "hasUsdQuote data a \<Longrightarrow> logLinePrints data a \<Longrightarrow>
     storePrices data now (a # as) cache result =
       storePrices data now as (cache(a \<mapsto> cacheEntry data now a))
         (result(a \<mapsto> quotePrice data a))"
  by (simp add: Let_def cacheEntry_def logLinePrints_def)

lemma storePrices_Cons_throw:
  "hasUsdQuote data a \<Longrightarrow> \<not> logLinePrints data a \<Longrightarrow>
     storePrices data now (a # as) cache result =
       (ThrewTypeError, cache(a \<mapsto> cacheEntry data now a), result(a \<mapsto> quotePrice data a))"
  by (auto simp: Let_def cacheEntry_def logLinePrints_def)

lemma storePrices_Cons_noquote:
  "\<not> hasUsdQuote data a \<Longrightarrow>
     storePrices data now (a # as) cache result =
       storePrices data now as cache (result(a \<mapsto> JNum 0))"
  by simp

declare storePrices.simps(2) [simp del]

lemma storePrices_cases:
  obtains (quote) "hasUsdQuote data a" "logLinePrints data a"
    | (throw) "hasUsdQuote data a" "\<not> logLinePrints data a"
    | (noquote) "\<not> hasUsdQuote data a"
  by blast

lemma storePrices_cache_keeps:
  "cache k \<noteq> None \<Longrightarrow> fst (snd (storePrices data now as cache result)) k \<noteq> None"
proof (induction as arbitrary: cache result)
  case Nil
  then show ?case by simp
next
  case (Cons a as)
  show ?case
  proof (cases rule: storePrices_cases [of data a])
    case quote
    from Cons.prems have "(cache(a \<mapsto> cacheEntry data now a)) k \<noteq> None" by simp
    then have "fst (snd (storePrices data now as (cache(a \<mapsto> cacheEntry data now a))
                 (result(a \<mapsto> quotePrice data a)))) k \<noteq> None"
      by (rule Cons.IH)
    then show ?thesis
      unfolding storePrices_Cons_quote [OF quote] .
  next
    case throw
    from Cons.prems show ?thesis
      by (simp add: storePrices_Cons_throw [OF throw])
  next
    case noquote
    from Cons.prems
    have "fst (snd (storePrices data now as cache (result(a \<mapsto> JNum 0)))) k \<noteq> None"
      by (rule Cons.IH)
    then show ?thesis
      unfolding storePrices_Cons_noquote [OF noquote] .
  qed
qed

lemma storePrices_cache_change:
  "fst (snd (storePrices data now as cache result)) k \<noteq> cache k \<Longrightarrow>
     k \<in> set as \<and> hasUsdQuote data k
       \<and> fst (snd (storePrices data now as cache result)) k = Some (cacheEntry data now k)"
proof (induction as arbitrary: cache result)
  case Nil
  then show ?case by simp
next
  case (Cons a as)
  show ?case
  proof (cases rule: storePrices_cases [of data a])
    case quote
    let ?c = "cache(a \<mapsto> cacheEntry data now a)"
    let ?r = "result(a \<mapsto> quotePrice data a)"
    note eq = storePrices_Cons_quote [OF quote, of now as cache result]
    show ?thesis
    proof (cases "fst (snd (storePrices data now as ?c ?r)) k = ?c k")
      case True
      from Cons.prems have "fst (snd (storePrices data now as ?c ?r)) k \<noteq> cache k"
        unfolding eq .
      with True have "?c k \<noteq> cache k" by simp
      then have "k = a" by (auto split: if_splits)
      with True quote show ?thesis by (simp add: eq)
    next
      case False
      then have "k \<in> set as \<and> hasUsdQuote data k
          \<and> fst (snd (storePrices data now as ?c ?r)) k = Some (cacheEntry data now k)"
        by (rule Cons.IH)
      then show ?thesis unfolding eq by simp
    qed
  next
    case throw
    note eq = storePrices_Cons_throw [OF throw, of now as cache result]
    from Cons.prems have "k = a" by (auto simp: eq split: if_splits)
    with throw show ?thesis by (simp add: eq)
  next
    case noquote
    note eq = storePrices_Cons_noquote [OF noquote, of now as cache result]
    from Cons.prems
    have "fst (snd (storePrices data now as cache (result(a \<mapsto> JNum 0)))) k \<noteq> cache k"
      unfolding eq .
    then have "k \<in> set as \<and> hasUsdQuote data k
        \<and> fst (snd (storePrices data now as cache (result(a \<mapsto> JNum 0)))) k
             = Some (cacheEntry data now k)"
      by (rule Cons.IH)
    then show ?thesis unfolding eq by simp
  qed
qed

lemma storePrices_numeric:
  assumes "\<forall>a\<in>set as. hasUsdQuote data a \<longrightarrow> logLinePrints data a"
  shows "fst (storePrices data now as cache result) = Normal"
    and "snd (snd (storePrices data now as cache result)) k =
           (if k \<in> set as then Some (if hasUsdQuote data k then quotePrice data k else JNum 0)
            else result k)"
    and "fst (snd (storePrices data now as cache result)) k =
           (if k \<in> set as \<and> hasUsdQuote data k then Some (cacheEntry data now k) else cache k)"
  using assms
proof (induction as arbitrary: cache result)
  case Nil
  {
    case 1 show ?case by simp
  next
    case 2 show ?case by simp
  next
    case 3 show ?case by simp
  }
next
  case (Cons a as)
  {
    case 1
    then show ?case
      by (cases rule: storePrices_cases [of data a])
        (simp_all add: storePrices_Cons_quote storePrices_Cons_noquote Cons.IH(1))
  next
    case 2
    then show ?case
      by (cases rule: storePrices_cases [of data a])
        (simp_all add: storePrices_Cons_quote storePrices_Cons_noquote Cons.IH(2))
  next
    case 3
    then show ?case
      by (cases rule: storePrices_cases [of data a])
        (auto simp: storePrices_Cons_quote storePrices_Cons_noquote Cons.IH(3))
  }
qed

section \<open>The branches of getTokenPrices\<close>

lemma uncachedAddresses_filter:
  "uncachedAddresses s t addrs =
     filter (\<lambda>a. getCachedPrice s t a = None) (map toLowerCase addrs)"
  by (simp add: uncachedAddresses_def snd_checkCache)

lemma getTokenPrices_nokey:
  "apiKey s = [] \<Longrightarrow>
     getTokenPrices ax tc ts s addrs cid =
       \<lparr>prices = zeroAll (map toLowerCase addrs) Map.empty, service = s, remoteCall = None\<rparr>"
  by (simp add: getTokenPrices_def)

lemma getTokenPrices_allhit:
  "apiKey s \<noteq> [] \<Longrightarrow> uncachedAddresses s tc addrs = [] \<Longrightarrow>
     getTokenPrices ax tc ts s addrs cid =
       \<lparr>prices = fst (checkCache s tc (map toLowerCase addrs) Map.empty []), service = s,
        remoteCall = None\<rparr>"
  by (simp add: getTokenPrices_def uncachedAddresses_def Let_def)

lemma getTokenPrices_rejected:
  "apiKey s \<noteq> [] \<Longrightarrow> uncachedAddresses s tc addrs \<noteq> [] \<Longrightarrow>
   ax (join_comma (uncachedAddresses s tc addrs)) = Rejected \<Longrightarrow>
     getTokenPrices ax tc ts s addrs cid =
       \<lparr>prices = zeroAll (uncachedAddresses s tc addrs)
                   (fst (checkCache s tc (map toLowerCase addrs) Map.empty [])),
        service = s,
        remoteCall = Some (join_comma (uncachedAddresses s tc addrs))\<rparr>"
  by (simp add: getTokenPrices_def uncachedAddresses_def Let_def)

lemma getTokenPrices_nodata:
  "apiKey s \<noteq> [] \<Longrightarrow> uncachedAddresses s tc addrs \<noteq> [] \<Longrightarrow>
   ax (join_comma (uncachedAddresses s tc addrs)) = Resolved body \<Longrightarrow>
   \<not> (truthy body \<and> truthy (getProp body ''data'')) \<Longrightarrow>
     getTokenPrices ax tc ts s addrs cid =
       \<lparr>prices = fst (checkCache s tc (map toLowerCase addrs) Map.empty []),
        service = s,
        remoteCall = Some (join_comma (uncachedAddresses s tc addrs))\<rparr>"
  by (auto simp: getTokenPrices_def uncachedAddresses_def Let_def)

lemma getTokenPrices_data:
  "apiKey s \<noteq> [] \<Longrightarrow> uncachedAddresses s tc addrs \<noteq> [] \<Longrightarrow>
   ax (join_comma (uncachedAddresses s tc addrs)) = Resolved body \<Longrightarrow>
   truthy body \<Longrightarrow> truthy (getProp body ''data'') \<Longrightarrow>
   storePrices (getProp body ''data'') ts (uncachedAddresses s tc addrs) (priceCache s)
      (fst (checkCache s tc (map toLowerCase addrs) Map.empty [])) = (c, cache', result') \<Longrightarrow>
     getTokenPrices ax tc ts s addrs cid =
       \<lparr>prices = (case c of Normal \<Rightarrow> result'
                   | ThrewTypeError \<Rightarrow> zeroAll (uncachedAddresses s tc addrs) result'),
        service = s\<lparr>priceCache := cache'\<rparr>,
        remoteCall = Some (join_comma (uncachedAddresses s tc addrs))\<rparr>"
  by (cases c) (simp_all add: getTokenPrices_def uncachedAddresses_def Let_def)

text \<open>The five ways a call can go.\<close>

lemma getTokenPrices_cases:
  obtains (nokey) "apiKey s = []"
  | (allhit) "apiKey s \<noteq> []" "uncachedAddresses s tc addrs = []"
  | (rejected) "apiKey s \<noteq> []" "uncachedAddresses s tc addrs \<noteq> []"
      "ax (join_comma (uncachedAddresses s tc addrs)) = Rejected"
  | (nodata) body where "apiKey s \<noteq> []" "uncachedAddresses s tc addrs \<noteq> []"
      "ax (join_comma (uncachedAddresses s tc addrs)) = Resolved body"
      "\<not> (truthy body \<and> truthy (getProp body ''data''))"
  | (data) body c cache' result' where "apiKey s \<noteq> []" "uncachedAddresses s tc addrs \<noteq> []"
      "ax (join_comma (uncachedAddresses s tc addrs)) = Resolved body"
      "truthy body" "truthy (getProp body ''data'')"
      "storePrices (getProp body ''data'') ts (uncachedAddresses s tc addrs) (priceCache s)
         (fst (checkCache s tc (map toLowerCase addrs) Map.empty [])) = (c, cache', result')"
proof (cases "apiKey s = []")
  case True
  then show ?thesis by (rule nokey)
next
  case key: False
  show ?thesis
  proof (cases "uncachedAddresses s tc addrs = []")
    case True
    with key show ?thesis by (rule allhit)
  next
    case miss: False
    show ?thesis
    proof (cases "ax (join_comma (uncachedAddresses s tc addrs))")
      case Rejected
      with key miss show ?thesis by (rule rejected)
    next
      case (Resolved body)
      show ?thesis
      proof (cases "truthy body \<and> truthy (getProp body ''data'')")
        case False
        with key miss Resolved show ?thesis by (rule nodata)
      next
        case True
        obtain c cache' result' where
          "storePrices (getProp body ''data'') ts (uncachedAddresses s tc addrs) (priceCache s)
             (fst (checkCache s tc (map toLowerCase addrs) Map.empty [])) = (c, cache', result')"
          by (metis prod_cases3)
        with key miss Resolved True show ?thesis by (blast intro: data)
      qed
    qed
  qed
qed

lemma remoteCall_getTokenPrices:
  "remoteCall (getTokenPrices ax tc ts s addrs cid) =
     (if remoteAddresses s tc addrs = [] then None
      else Some (join_comma (remoteAddresses s tc addrs)))"
  by (cases rule: getTokenPrices_cases [where s=s and tc=tc and addrs=addrs and ax=ax and ts=ts])
    (simp_all add: getTokenPrices_nokey getTokenPrices_allhit getTokenPrices_rejected
      getTokenPrices_nodata getTokenPrices_data remoteAddresses_def)

lemma apiKey_getTokenPrices:
  "apiKey (service (getTokenPrices ax tc ts s addrs cid)) = apiKey s"
  by (cases rule: getTokenPrices_cases [where s=s and tc=tc and addrs=addrs and ax=ax and ts=ts])
    (simp_all add: getTokenPrices_nokey getTokenPrices_allhit getTokenPrices_rejected
      getTokenPrices_nodata getTokenPrices_data)

lemma priceCache_getTokenPrices_keeps:
  "priceCache s k \<noteq> None \<Longrightarrow>
     priceCache (service (getTokenPrices ax tc ts s addrs cid)) k \<noteq> None"
proof (cases rule: getTokenPrices_cases [where s=s and tc=tc and addrs=addrs and ax=ax and ts=ts])
  case (data body c cache' result')
  assume "priceCache s k \<noteq> None"
  then have "fst (snd (storePrices (getProp body ''data'') ts (uncachedAddresses s tc addrs)
      (priceCache s) (fst (checkCache s tc (map toLowerCase addrs) Map.empty [])))) k \<noteq> None"
    by (rule storePrices_cache_keeps)
  with data(6) have "cache' k \<noteq> None" by simp
  then show ?thesis by (simp add: getTokenPrices_data [where ax=ax, OF data])
qed (simp_all add: getTokenPrices_nokey getTokenPrices_allhit getTokenPrices_rejected
      getTokenPrices_nodata)

lemma priceCache_getTokenPrices_change:
  assumes "priceCache (service (getTokenPrices ax tc ts s addrs cid)) k \<noteq> priceCache s k"
  shows "apiKey s \<noteq> [] \<and> k \<in> set (uncachedAddresses s tc addrs)
     \<and> (\<exists>body. ax (join_comma (uncachedAddresses s tc addrs)) = Resolved body
          \<and> truthy body \<and> truthy (getProp body ''data'')
          \<and> hasUsdQuote (getProp body ''data'') k
          \<and> priceCache (service (getTokenPrices ax tc ts s addrs cid)) k
               = Some (cacheEntry (getProp body ''data'') ts k))"
proof (cases rule: getTokenPrices_cases [where s=s and tc=tc and addrs=addrs and ax=ax and ts=ts])
  case nokey
  with assms show ?thesis by (simp add: getTokenPrices_nokey)
next
  case allhit
  with assms show ?thesis by (simp add: getTokenPrices_allhit)
next
  case rejected
  with assms show ?thesis by (simp add: getTokenPrices_rejected)
next
  case (nodata body)
  with assms show ?thesis by (simp add: getTokenPrices_nodata)
next
  case (data body c cache' result')
  let ?sp = "storePrices (getProp body ''data'') ts (uncachedAddresses s tc addrs)
      (priceCache s) (fst (checkCache s tc (map toLowerCase addrs) Map.empty []))"
  have c: "priceCache (service (getTokenPrices ax tc ts s addrs cid)) = fst (snd ?sp)"
    using data(6) by (simp add: getTokenPrices_data [where ax=ax, OF data])
  from assms have "fst (snd ?sp) k \<noteq> priceCache s k" unfolding c .
  then have "k \<in> set (uncachedAddresses s tc addrs) \<and> hasUsdQuote (getProp body ''data'') k
       \<and> fst (snd ?sp) k = Some (cacheEntry (getProp body ''data'') ts k)"
    by (rule storePrices_cache_change)
  with data(1,3,4,5) show ?thesis by (simp only: c) blast
qed

lemma uncachedAddresses_empty_iff:
  "uncachedAddresses s tc addrs = [] \<longleftrightarrow> (\<forall>a\<in>set addrs. getCachedPrice s tc a \<noteq> None)"
  by (auto simp: uncachedAddresses_filter filter_empty_conv getCachedPrice_lower)

lemma service_getTokenPrices_unchanged:
  assumes "apiKey s = [] \<or> (\<forall>a\<in>set addrs. getCachedPrice s tc a \<noteq> None)"
  shows "service (getTokenPrices ax tc ts s addrs cid) = s"
proof (cases "apiKey s = []")
  case True
  then show ?thesis by (simp add: getTokenPrices_nokey)
next
  case False
  with assms have "uncachedAddresses s tc addrs = []"
    by (simp add: uncachedAddresses_empty_iff)
  with False show ?thesis by (simp add: getTokenPrices_allhit)
qed

section \<open>Evaluation on the fixtures\<close>

text \<open>
  Calls of \<^verbatim>\<open>getTokenPrices\<close> on the fixtures, among them the cases of the unit tests:
  no API key, a fetch of both tokens, a token missing from the response, a rejected
  request.
\<close>

lemmas eval_defs = getTokenPrices_def getCachedPrice_def CACHE_TTL_MS_def toLowerCase_def
  lowerChar_def hasUsdQuote_def quotePrice_def quoteSymbol_def js_or_def Let_def
  storePrices.simps(2)
  testService_def serviceNoKey_def mockToken_def mockResponse_def mockResponseMissing_def
  axiosResolves_def axiosRejects_def cachedService_def bodyWithoutData_def
  mockResponseNullPrice_def cacheEntry_def
  uncachedAddresses_def remoteAddresses_def

lemma eval_nokey:
  "getTokenPrices ax tc ts serviceNoKey [''0xToken1''] cid =
     \<lparr>prices = [''0xtoken1'' \<mapsto> JNum 0], service = serviceNoKey, remoteCall = None\<rparr>"
  by (simp add: getTokenPrices_nokey serviceNoKey_def toLowerCase_def lowerChar_def)

lemma eval_fetch:
  "getTokenPrices (axiosResolves mockResponse) 0 5 testService [''0xToken1'', ''0xtoken3''] 1 =
     \<lparr>prices = [''0xtoken1'' \<mapsto> JNum 3000, ''0xtoken3'' \<mapsto> JNum 0],
      service = \<lparr>apiKey = ''test-api-key'',
                 priceCache = [''0xtoken1'' \<mapsto>
                   \<lparr>address = ''0xtoken1'', symbol = JStr ''WETH'', priceUsd = JNum 3000,
                    timestamp = 5\<rparr>]\<rparr>,
      remoteCall = Some ''0xtoken1,0xtoken3''\<rparr>"
  by (simp add: eval_defs)

lemma eval_fetch_both:
  "getTokenPrices (axiosResolves mockResponse) 0 5 testService [''0xtoken1'', ''0xtoken2''] 1 =
     \<lparr>prices = [''0xtoken1'' \<mapsto> JNum 3000, ''0xtoken2'' \<mapsto> JNum 1],
      service = \<lparr>apiKey = ''test-api-key'',
                 priceCache = [''0xtoken1'' \<mapsto>
                   \<lparr>address = ''0xtoken1'', symbol = JStr ''WETH'', priceUsd = JNum 3000,
                    timestamp = 5\<rparr>,
                   ''0xtoken2'' \<mapsto>
                   \<lparr>address = ''0xtoken2'', symbol = JStr ''USDC'', priceUsd = JNum 1,
                    timestamp = 5\<rparr>]\<rparr>,
      remoteCall = Some ''0xtoken1,0xtoken2''\<rparr>"
  by (simp add: eval_defs)

section \<open>No credential\<close>

text \<open>
  C4. When no API key is configured, \<^verbatim>\<open>getTokenPrices\<close> makes no remote call, maps the
  lowercased key of every requested address to 0, and returns no price other than 0.
\<close>

theorem no_credential_zero_prices:
  "apiKey s = [] \<Longrightarrow>
     remoteCall (getTokenPrices ax tc ts s addrs cid) = None
     \<and> (\<forall>a\<in>set addrs. prices (getTokenPrices ax tc ts s addrs cid) (toLowerCase a) = Some (JNum 0))
     \<and> (\<forall>k v. prices (getTokenPrices ax tc ts s addrs cid) k = Some v \<longrightarrow> v = JNum 0)"
  by (simp add: getTokenPrices_nokey zeroAll_apply)

theorem no_credential_zero_prices_witness:
  "apiKey serviceNoKey = []
   \<and> remoteCall (getTokenPrices (axiosResolves mockResponse) 0 0 serviceNoKey
        [''0xtoken1'', ''0xToken2''] 1) = None
   \<and> prices (getTokenPrices (axiosResolves mockResponse) 0 0 serviceNoKey
        [''0xtoken1'', ''0xToken2''] 1) ''0xtoken1'' = Some (JNum 0)
   \<and> prices (getTokenPrices (axiosResolves mockResponse) 0 0 serviceNoKey
        [''0xtoken1'', ''0xToken2''] 1) ''0xtoken2'' = Some (JNum 0)"
  using no_credential_zero_prices [of serviceNoKey "axiosResolves mockResponse" 0 0
      "[''0xtoken1'', ''0xToken2'']" 1]
  by (simp add: serviceNoKey_def toLowerCase_def lowerChar_def)

section \<open>Cache lookup\<close>

text \<open>
  C5. \<^verbatim>\<open>getCachedPrice\<close> returns nothing exactly when the lowercased key was never stored
  or the stored entry is older than 60000 ms (\<open>now - timestamp > 60000\<close>, strictly). The
  lookup is a read: it returns the entry or nothing and leaves the cache as it is. A call of
  \<^verbatim>\<open>getTokenPrices\<close>, which performs the lookups, removes no key from the cache, expired
  or not; \<^verbatim>\<open>clearCache\<close> removes them all.
\<close>

theorem lookup_lazy_expiry:
  "(getCachedPrice s now a = None \<longleftrightarrow>
      priceCache s (toLowerCase a) = None
      \<or> (\<exists>e. priceCache s (toLowerCase a) = Some e \<and> now - timestamp e > 60000))
   \<and> (priceCache s k \<noteq> None \<longrightarrow>
        priceCache (service (getTokenPrices ax tc ts s addrs cid)) k \<noteq> None)
   \<and> priceCache (clearCache s) = Map.empty"
  using priceCache_getTokenPrices_keeps [of s k ax tc ts addrs cid]
  by (auto simp: getCachedPrice_def CACHE_TTL_MS_def clearCache_def split: option.splits)

theorem lookup_lazy_expiry_witness:
  "getCachedPrice cachedService 60000 ''0xToken1'' \<noteq> None
   \<and> getCachedPrice cachedService 60001 ''0xToken1'' = None
   \<and> getCachedPrice cachedService 0 ''0xtoken2'' = None
   \<and> priceCache cachedService ''0xtoken1'' \<noteq> None
   \<and> priceCache (service (getTokenPrices axiosRejects 60001 60002 cachedService
         [''0xToken1''] 1)) ''0xtoken1'' \<noteq> None
   \<and> priceCache (clearCache cachedService) ''0xtoken1'' = None"
proof -
  have lower: "toLowerCase ''0xToken1'' = ''0xtoken1''" "toLowerCase ''0xtoken2'' = ''0xtoken2''"
    by (simp_all add: toLowerCase_def lowerChar_def)
  have present: "priceCache cachedService ''0xtoken1'' \<noteq> None"
    by (simp add: cachedService_def)
  note at_ttl = lookup_lazy_expiry [of cachedService 60000 "''0xToken1''" "''0xtoken1''"
      axiosRejects 60001 60002 "[''0xToken1'']" 1, THEN conjunct1]
  note past_ttl = lookup_lazy_expiry [of cachedService 60001 "''0xToken1''" "''0xtoken1''"
      axiosRejects 60001 60002 "[''0xToken1'']" 1]
  note never = lookup_lazy_expiry [of cachedService 0 "''0xtoken2''" "''0xtoken1''"
      axiosRejects 60001 60002 "[''0xToken1'']" 1, THEN conjunct1]
  have a: "getCachedPrice cachedService 60000 ''0xToken1'' \<noteq> None"
    by (simp add: at_ttl lower) (simp add: cachedService_def)
  have b: "getCachedPrice cachedService 60001 ''0xToken1'' = None"
    by (simp add: past_ttl [THEN conjunct1] lower) (simp add: cachedService_def)
  have c: "getCachedPrice cachedService 0 ''0xtoken2'' = None"
    by (simp add: never lower) (simp add: cachedService_def)
  have d: "priceCache (service (getTokenPrices axiosRejects 60001 60002 cachedService
         [''0xToken1''] 1)) ''0xtoken1'' \<noteq> None"
    by (rule past_ttl [THEN conjunct2, THEN conjunct1, THEN mp, OF present])
  have e: "priceCache (clearCache cachedService) ''0xtoken1'' = None"
    by (simp add: past_ttl [THEN conjunct2, THEN conjunct2])
  from a b c present d e show ?thesis
    by (intro conjI)
qed

section \<open>What changes the cache\<close>

text \<open>
  A call without an API key, or one in which every requested address is a fresh cache hit,
  leaves the service unchanged. Where a call changes the cache at a key, the key was a
  cache miss of a call with an API key, the remote request resolved to a body with
  \<^verbatim>\<open>data\<close>, the guard \<^verbatim>\<open>tokenData && tokenData.quote && tokenData.quote.USD\<close> held
  for the key, and the new entry is the one built from that quote, stamped with the time of
  the store loop. The guard does not look at the price. No call removes a key;
  \<^verbatim>\<open>clearCache\<close> empties the cache.
\<close>

lemma cache_frame:
  "((apiKey s = [] \<or> (\<forall>a\<in>set addrs. getCachedPrice s tc a \<noteq> None)) \<longrightarrow>
       service (getTokenPrices ax tc ts s addrs cid) = s)
   \<and> (priceCache (service (getTokenPrices ax tc ts s addrs cid)) k \<noteq> priceCache s k \<longrightarrow>
        apiKey s \<noteq> [] \<and> k \<in> set (uncachedAddresses s tc addrs)
        \<and> (\<exists>body. ax (join_comma (uncachedAddresses s tc addrs)) = Resolved body
             \<and> truthy body \<and> truthy (getProp body ''data'')
             \<and> hasUsdQuote (getProp body ''data'') k
             \<and> priceCache (service (getTokenPrices ax tc ts s addrs cid)) k
                  = Some (cacheEntry (getProp body ''data'') ts k)))
   \<and> (priceCache s k \<noteq> None \<longrightarrow>
        priceCache (service (getTokenPrices ax tc ts s addrs cid)) k \<noteq> None)
   \<and> priceCache (clearCache s) = Map.empty"
proof -
  have unchanged: "(apiKey s = [] \<or> (\<forall>a\<in>set addrs. getCachedPrice s tc a \<noteq> None)) \<longrightarrow>
       service (getTokenPrices ax tc ts s addrs cid) = s"
    by (rule impI) (rule service_getTokenPrices_unchanged)
  have written: "priceCache (service (getTokenPrices ax tc ts s addrs cid)) k \<noteq> priceCache s k \<longrightarrow>
        apiKey s \<noteq> [] \<and> k \<in> set (uncachedAddresses s tc addrs)
        \<and> (\<exists>body. ax (join_comma (uncachedAddresses s tc addrs)) = Resolved body
             \<and> truthy body \<and> truthy (getProp body ''data'')
             \<and> hasUsdQuote (getProp body ''data'') k
             \<and> priceCache (service (getTokenPrices ax tc ts s addrs cid)) k
                  = Some (cacheEntry (getProp body ''data'') ts k))"
    by (rule impI) (rule priceCache_getTokenPrices_change)
  have kept: "priceCache s k \<noteq> None \<longrightarrow>
        priceCache (service (getTokenPrices ax tc ts s addrs cid)) k \<noteq> None"
    by (rule impI) (rule priceCache_getTokenPrices_keeps)
  have cleared: "priceCache (clearCache s) = Map.empty"
    by (simp add: clearCache_def)
  show ?thesis
    by (rule conjI [OF unchanged conjI [OF written conjI [OF kept cleared]]])
qed

lemma eval_null_price:
  "getTokenPrices (axiosResolves mockResponseNullPrice) 0 5 testService
       [''0xtoken1'', ''0xtoken2''] 1 =
     \<lparr>prices = [''0xtoken1'' \<mapsto> JNum 0, ''0xtoken2'' \<mapsto> JNum 0],
      service = \<lparr>apiKey = ''test-api-key'',
                 priceCache = [''0xtoken1'' \<mapsto>
                   \<lparr>address = ''0xtoken1'', symbol = JStr ''WETH'', priceUsd = JNum 3000,
                    timestamp = 5\<rparr>,
                   ''0xtoken2'' \<mapsto>
                   \<lparr>address = ''0xtoken2'', symbol = JStr ''OLD'', priceUsd = JNull,
                    timestamp = 5\<rparr>]\<rparr>,
      remoteCall = Some ''0xtoken1,0xtoken2''\<rparr>"
  by (simp add: eval_defs)

lemma eval_null_price_served:
  "getTokenPrices axiosRejects 10 15
       \<lparr>apiKey = ''test-api-key'',
        priceCache = [''0xtoken1'' \<mapsto>
          \<lparr>address = ''0xtoken1'', symbol = JStr ''WETH'', priceUsd = JNum 3000,
           timestamp = 5\<rparr>,
          ''0xtoken2'' \<mapsto>
          \<lparr>address = ''0xtoken2'', symbol = JStr ''OLD'', priceUsd = JNull,
           timestamp = 5\<rparr>]\<rparr>
       [''0xtoken2''] 1 =
     \<lparr>prices = [''0xtoken2'' \<mapsto> JNull],
      service = \<lparr>apiKey = ''test-api-key'',
        priceCache = [''0xtoken1'' \<mapsto>
          \<lparr>address = ''0xtoken1'', symbol = JStr ''WETH'', priceUsd = JNum 3000,
           timestamp = 5\<rparr>,
          ''0xtoken2'' \<mapsto>
          \<lparr>address = ''0xtoken2'', symbol = JStr ''OLD'', priceUsd = JNull,
           timestamp = 5\<rparr>]\<rparr>,
      remoteCall = None\<rparr>"
  by (simp add: eval_defs)

text \<open>
  C10. The store loop writes the cache entry of a quoted address before it builds the log
  line and never looks at the price. The response quotes \<^verbatim>\<open>0xtoken2\<close> with the price
  \<^verbatim>\<open>null\<close>: the entry is written with that price, \<^verbatim>\<open>priceUsd.toFixed\<close> then throws,
  and the \<^verbatim>\<open>catch\<close> returns 0 for the address. The cache has gained an entry that is no
  well-formed quote, and the next call within the TTL serves \<^verbatim>\<open>null\<close> from it without
  a remote request.
\<close>

theorem priceless_quote_cached:
  "priceCache testService ''0xtoken2'' = None
   \<and> quotePrice (getProp mockResponseNullPrice ''data'') ''0xtoken2'' = JNull
   \<and> prices (getTokenPrices (axiosResolves mockResponseNullPrice) 0 5 testService
        [''0xtoken1'', ''0xtoken2''] 1) ''0xtoken2'' = Some (JNum 0)
   \<and> priceCache (service (getTokenPrices (axiosResolves mockResponseNullPrice) 0 5 testService
        [''0xtoken1'', ''0xtoken2''] 1)) ''0xtoken2''
       = Some \<lparr>address = ''0xtoken2'', symbol = JStr ''OLD'', priceUsd = JNull, timestamp = 5\<rparr>
   \<and> remoteCall (getTokenPrices axiosRejects 10 15
        (service (getTokenPrices (axiosResolves mockResponseNullPrice) 0 5 testService
           [''0xtoken1'', ''0xtoken2''] 1)) [''0xtoken2''] 1) = None
   \<and> prices (getTokenPrices axiosRejects 10 15
        (service (getTokenPrices (axiosResolves mockResponseNullPrice) 0 5 testService
           [''0xtoken1'', ''0xtoken2''] 1)) [''0xtoken2''] 1) ''0xtoken2'' = Some JNull"
  by (simp add: eval_null_price eval_null_price_served)
    (simp add: testService_def mockResponseNullPrice_def quotePrice_def)

lemma storePrices_result_other:
  "k \<notin> set as \<Longrightarrow> snd (snd (storePrices data now as cache result)) k = result k"
proof (induction as arbitrary: cache result)
  case Nil
  then show ?case by simp
next
  case (Cons a as)
  then have k: "k \<noteq> a" "k \<notin> set as" by auto
  show ?case
  proof (cases rule: storePrices_cases [of data a])
    case quote
    show ?thesis
      by (simp add: storePrices_Cons_quote [OF quote] Cons.IH [OF k(2)] k(1))
  next
    case throw
    show ?thesis
      by (simp add: storePrices_Cons_throw [OF throw] k(1))
  next
    case noquote
    show ?thesis
      by (simp add: storePrices_Cons_noquote [OF noquote] Cons.IH [OF k(2)] k(1))
  qed
qed

lemma set_uncachedAddresses:
  "set (uncachedAddresses s tc addrs) =
     {k \<in> toLowerCase ` set addrs. getCachedPrice s tc k = None}"
  by (auto simp: uncachedAddresses_filter)

lemma checked_apply:
  "fst (checkCache s tc (map toLowerCase addrs) Map.empty []) k =
     (if k \<in> toLowerCase ` set addrs then map_option priceUsd (getCachedPrice s tc k) else None)"
  by (auto simp: fst_checkCache)

text \<open>The keys of the returned map are among the lowercased requested addresses.\<close>

lemma prices_key:
  assumes "prices (getTokenPrices ax tc ts s addrs cid) k \<noteq> None"
  shows "k \<in> toLowerCase ` set addrs"
proof (cases rule: getTokenPrices_cases [where s=s and tc=tc and addrs=addrs and ax=ax and ts=ts])
  case nokey
  with assms show ?thesis
    by (simp add: getTokenPrices_nokey zeroAll_apply split: if_splits)
next
  case allhit
  with assms show ?thesis
    by (simp add: getTokenPrices_allhit checked_apply split: if_splits)
next
  case rejected
  with assms show ?thesis
    by (auto simp: getTokenPrices_rejected zeroAll_apply checked_apply set_uncachedAddresses
        split: if_splits)
next
  case (nodata body)
  with assms show ?thesis
    by (simp add: getTokenPrices_nodata checked_apply split: if_splits)
next
  case (data body c cache' result')
  let ?checked = "fst (checkCache s tc (map toLowerCase addrs) Map.empty [])"
  show ?thesis
  proof (rule ccontr)
    assume k: "k \<notin> toLowerCase ` set addrs"
    then have miss: "k \<notin> set (uncachedAddresses s tc addrs)"
      by (simp add: set_uncachedAddresses)
    then have "snd (snd (storePrices (getProp body ''data'') ts (uncachedAddresses s tc addrs)
        (priceCache s) ?checked)) k = ?checked k"
      by (rule storePrices_result_other)
    with data(6) k have "result' k = None"
      by (simp add: checked_apply)
    with miss have "prices (getTokenPrices ax tc ts s addrs cid) k = None"
      by (cases c) (simp_all add: getTokenPrices_data [where ax=ax, OF data] zeroAll_apply)
    with assms show False by simp
  qed
qed

section \<open>Keys of the returned map\<close>

text \<open>
  C9. Every key of the map returned by \<^verbatim>\<open>getTokenPrices\<close> is the lowercased form of a
  requested address, in every branch, the one without an API key included. A string that
  is not its own lowercase form is therefore never a key: looking the result up under the
  mixed-case spelling that was passed in finds nothing.
\<close>

theorem result_keys_lowercase:
  "(prices (getTokenPrices ax tc ts s addrs cid) k \<noteq> None \<longrightarrow>
      k \<in> toLowerCase ` set addrs \<and> toLowerCase k = k)
   \<and> (toLowerCase a \<noteq> a \<longrightarrow> prices (getTokenPrices ax tc ts s addrs cid) a = None)"
proof -
  have key: "k \<in> toLowerCase ` set addrs \<and> toLowerCase k = k"
    if "prices (getTokenPrices ax tc ts s addrs cid) k \<noteq> None" for k
  proof -
    from that have "k \<in> toLowerCase ` set addrs" by (rule prices_key)
    then show ?thesis by (auto simp: toLowerCase_idem)
  qed
  then show ?thesis by blast
qed

theorem result_keys_lowercase_witness:
  "prices (getTokenPrices (axiosResolves mockResponse) 0 5 testService
      [''0xToken1'', ''0xtoken3''] 1) ''0xtoken1'' \<noteq> None
   \<and> toLowerCase ''0xtoken1'' = ''0xtoken1''
   \<and> toLowerCase ''0xToken1'' \<noteq> ''0xToken1''
   \<and> prices (getTokenPrices (axiosResolves mockResponse) 0 5 testService
      [''0xToken1'', ''0xtoken3''] 1) ''0xToken1'' = None
   \<and> prices (getTokenPrices (axiosResolves mockResponse) 0 5 serviceNoKey [''0xToken1''] 1)
        ''0xToken1'' = None"
proof -
  have present: "prices (getTokenPrices (axiosResolves mockResponse) 0 5 testService
      [''0xToken1'', ''0xtoken3''] 1) ''0xtoken1'' \<noteq> None"
    by (simp add: eval_fetch)
  have mixed: "toLowerCase ''0xToken1'' \<noteq> ''0xToken1''"
    by (simp add: toLowerCase_def lowerChar_def)
  note keys = result_keys_lowercase [of "axiosResolves mockResponse" 0 5 testService
      "[''0xToken1'', ''0xtoken3'']" 1 "''0xtoken1''" "''0xToken1''"]
  note nokey = result_keys_lowercase [of "axiosResolves mockResponse" 0 5 serviceNoKey
      "[''0xToken1'']" 1 "''0xtoken1''" "''0xToken1''"]
  from present mixed
    keys [THEN conjunct1, THEN mp, OF present, THEN conjunct2]
    keys [THEN conjunct2, THEN mp, OF mixed]
    nokey [THEN conjunct2, THEN mp, OF mixed]
  show ?thesis by simp
qed

section \<open>Entries of the returned map\<close>

lemma prices_hit:
  assumes key: "apiKey s \<noteq> []"
    and k: "k \<in> toLowerCase ` set addrs"
    and hit: "getCachedPrice s tc k = Some e"
  shows "prices (getTokenPrices ax tc ts s addrs cid) k = Some (priceUsd e)"
proof -
  let ?checked = "fst (checkCache s tc (map toLowerCase addrs) Map.empty [])"
  from k hit have checked: "?checked k = Some (priceUsd e)"
    by (simp add: checked_apply)
  from hit have miss: "k \<notin> set (uncachedAddresses s tc addrs)"
    by (simp add: set_uncachedAddresses)
  show ?thesis
  proof (cases rule: getTokenPrices_cases [where s=s and tc=tc and addrs=addrs and ax=ax and ts=ts])
    case nokey
    with key show ?thesis by simp
  next
    case allhit
    with checked show ?thesis by (simp add: getTokenPrices_allhit)
  next
    case rejected
    with checked miss show ?thesis by (simp add: getTokenPrices_rejected zeroAll_apply)
  next
    case (nodata body)
    with checked show ?thesis by (simp add: getTokenPrices_nodata)
  next
    case (data body c cache' result')
    from miss have "snd (snd (storePrices (getProp body ''data'') ts
        (uncachedAddresses s tc addrs) (priceCache s) ?checked)) k = ?checked k"
      by (rule storePrices_result_other)
    with data(6) checked have "result' k = Some (priceUsd e)" by simp
    with miss show ?thesis
      by (cases c) (simp_all add: getTokenPrices_data [where ax=ax, OF data] zeroAll_apply)
  qed
qed

lemma prices_rejected:
  assumes "apiKey s \<noteq> []"
    and "k \<in> set (uncachedAddresses s tc addrs)"
    and "ax (join_comma (uncachedAddresses s tc addrs)) = Rejected"
  shows "prices (getTokenPrices ax tc ts s addrs cid) k = Some (JNum 0)"
proof -
  from assms(2) have "uncachedAddresses s tc addrs \<noteq> []" by auto
  with assms show ?thesis
    by (simp add: getTokenPrices_rejected zeroAll_apply)
qed

lemma prices_quoted:
  assumes "apiKey s \<noteq> []"
    and k: "k \<in> set (uncachedAddresses s tc addrs)"
    and "ax (join_comma (uncachedAddresses s tc addrs)) = Resolved body"
    and "truthy body" and "truthy (getProp body ''data'')"
    and numeric: "\<forall>m\<in>set (uncachedAddresses s tc addrs).
           hasUsdQuote (getProp body ''data'') m \<longrightarrow> logLinePrints (getProp body ''data'') m"
  shows "prices (getTokenPrices ax tc ts s addrs cid) k =
           Some (if hasUsdQuote (getProp body ''data'') k
                 then quotePrice (getProp body ''data'') k else JNum 0)"
    and "priceCache (service (getTokenPrices ax tc ts s addrs cid)) k =
           (if hasUsdQuote (getProp body ''data'') k
            then Some (cacheEntry (getProp body ''data'') ts k) else priceCache s k)"
proof -
  let ?checked = "fst (checkCache s tc (map toLowerCase addrs) Map.empty [])"
  let ?sp = "storePrices (getProp body ''data'') ts (uncachedAddresses s tc addrs)
      (priceCache s) ?checked"
  from k have ne: "uncachedAddresses s tc addrs \<noteq> []" by auto
  obtain c cache' result' where sp: "?sp = (c, cache', result')"
    by (metis prod_cases3)
  have "fst ?sp = Normal"
    using numeric by (rule storePrices_numeric(1))
  with sp have c: "c = Normal" by simp
  have "snd (snd ?sp) k = Some (if hasUsdQuote (getProp body ''data'') k
                 then quotePrice (getProp body ''data'') k else JNum 0)"
    using k by (simp add: storePrices_numeric(2) [OF numeric])
  with sp have r: "result' k = Some (if hasUsdQuote (getProp body ''data'') k
                 then quotePrice (getProp body ''data'') k else JNum 0)"
    by simp
  have "fst (snd ?sp) k = (if hasUsdQuote (getProp body ''data'') k
            then Some (cacheEntry (getProp body ''data'') ts k) else priceCache s k)"
    using k by (simp add: storePrices_numeric(3) [OF numeric])
  with sp have ch: "cache' k = (if hasUsdQuote (getProp body ''data'') k
            then Some (cacheEntry (getProp body ''data'') ts k) else priceCache s k)"
    by simp
  note unfold = getTokenPrices_data [where ax=ax, OF assms(1) ne assms(3,4,5) sp]
  show "prices (getTokenPrices ax tc ts s addrs cid) k =
           Some (if hasUsdQuote (getProp body ''data'') k
                 then quotePrice (getProp body ''data'') k else JNum 0)"
    using r c by (simp add: unfold)
  show "priceCache (service (getTokenPrices ax tc ts s addrs cid)) k =
           (if hasUsdQuote (getProp body ''data'') k
            then Some (cacheEntry (getProp body ''data'') ts k) else priceCache s k)"
    using ch by (simp add: unfold)
qed

text \<open>
  The entry of a requested address \<open>a\<close>, under its lowercased key, in the branches that
  give it one. Without an API key it maps to 0. With a key, a fresh cache hit maps to the
  cached price;
  a cache miss maps to 0 when the remote request is rejected; and when the request resolves
  to a body with \<^verbatim>\<open>data\<close> in which the log line of every quoted miss prints (its price
  is a number), a miss maps to its quoted price if the guard
  \<^verbatim>\<open>tokenData && tokenData.quote && tokenData.quote.USD\<close> holds for it, and to 0 otherwise.
\<close>

lemma getTokenPrices_entries:
  assumes "a \<in> set addrs"
  shows "(apiKey s = [] \<longrightarrow>
            prices (getTokenPrices ax tc ts s addrs cid) (toLowerCase a) = Some (JNum 0))
   \<and> (\<forall>e. apiKey s \<noteq> [] \<and> getCachedPrice s tc a = Some e \<longrightarrow>
            prices (getTokenPrices ax tc ts s addrs cid) (toLowerCase a) = Some (priceUsd e))
   \<and> (apiKey s \<noteq> [] \<and> getCachedPrice s tc a = None
          \<and> ax (join_comma (uncachedAddresses s tc addrs)) = Rejected \<longrightarrow>
            prices (getTokenPrices ax tc ts s addrs cid) (toLowerCase a) = Some (JNum 0))
   \<and> (\<forall>body. apiKey s \<noteq> [] \<and> getCachedPrice s tc a = None
          \<and> ax (join_comma (uncachedAddresses s tc addrs)) = Resolved body
          \<and> truthy body \<and> truthy (getProp body ''data'')
          \<and> (\<forall>m\<in>set (uncachedAddresses s tc addrs).
                hasUsdQuote (getProp body ''data'') m \<longrightarrow>
                logLinePrints (getProp body ''data'') m) \<longrightarrow>
            prices (getTokenPrices ax tc ts s addrs cid) (toLowerCase a) =
              Some (if hasUsdQuote (getProp body ''data'') (toLowerCase a)
                    then quotePrice (getProp body ''data'') (toLowerCase a) else JNum 0))"
proof -
  from assms have k: "toLowerCase a \<in> toLowerCase ` set addrs" by simp
  have miss: "toLowerCase a \<in> set (uncachedAddresses s tc addrs)"
    if "getCachedPrice s tc a = None"
    using that k by (simp add: set_uncachedAddresses getCachedPrice_lower)
  have nokey: "apiKey s = [] \<longrightarrow>
      prices (getTokenPrices ax tc ts s addrs cid) (toLowerCase a) = Some (JNum 0)"
    using assms by (simp add: getTokenPrices_nokey zeroAll_apply)
  have hit: "\<forall>e. apiKey s \<noteq> [] \<and> getCachedPrice s tc a = Some e \<longrightarrow>
      prices (getTokenPrices ax tc ts s addrs cid) (toLowerCase a) = Some (priceUsd e)"
  proof (intro allI impI, elim conjE)
    fix e
    assume "apiKey s \<noteq> []" "getCachedPrice s tc a = Some e"
    then show "prices (getTokenPrices ax tc ts s addrs cid) (toLowerCase a) = Some (priceUsd e)"
      using k by (intro prices_hit) (simp_all add: getCachedPrice_lower)
  qed
  have rejected: "apiKey s \<noteq> [] \<and> getCachedPrice s tc a = None
          \<and> ax (join_comma (uncachedAddresses s tc addrs)) = Rejected \<longrightarrow>
      prices (getTokenPrices ax tc ts s addrs cid) (toLowerCase a) = Some (JNum 0)"
    using miss by (auto intro!: prices_rejected)
  have quoted: "\<forall>body. apiKey s \<noteq> [] \<and> getCachedPrice s tc a = None
          \<and> ax (join_comma (uncachedAddresses s tc addrs)) = Resolved body
          \<and> truthy body \<and> truthy (getProp body ''data'')
          \<and> (\<forall>m\<in>set (uncachedAddresses s tc addrs).
                hasUsdQuote (getProp body ''data'') m \<longrightarrow>
                logLinePrints (getProp body ''data'') m) \<longrightarrow>
            prices (getTokenPrices ax tc ts s addrs cid) (toLowerCase a) =
              Some (if hasUsdQuote (getProp body ''data'') (toLowerCase a)
                    then quotePrice (getProp body ''data'') (toLowerCase a) else JNum 0)"
  proof (intro allI impI, elim conjE)
    fix body
    assume "apiKey s \<noteq> []" "getCachedPrice s tc a = None"
      "ax (join_comma (uncachedAddresses s tc addrs)) = Resolved body"
      "truthy body" "truthy (getProp body ''data'')"
      "\<forall>m\<in>set (uncachedAddresses s tc addrs).
                hasUsdQuote (getProp body ''data'') m \<longrightarrow>
                logLinePrints (getProp body ''data'') m"
    then show "prices (getTokenPrices ax tc ts s addrs cid) (toLowerCase a) =
              Some (if hasUsdQuote (getProp body ''data'') (toLowerCase a)
                    then quotePrice (getProp body ''data'') (toLowerCase a) else JNum 0)"
      using miss by (intro prices_quoted(1)) simp_all
  qed
  show ?thesis
    by (rule conjI [OF nokey conjI [OF hit conjI [OF rejected quoted]]])
qed

lemma lower_fixtures:
  "toLowerCase ''0xToken1'' = ''0xtoken1''"
  "toLowerCase ''0xtoken1'' = ''0xtoken1''"
  "toLowerCase ''0xtoken2'' = ''0xtoken2''"
  "toLowerCase ''0xtoken3'' = ''0xtoken3''"
  by (simp_all add: toLowerCase_def lowerChar_def)

lemma eval_partial:
  "getTokenPrices axiosRejects 10 15 cachedService [''0xToken1'', ''0xtoken2''] 1 =
     \<lparr>prices = [''0xtoken1'' \<mapsto> JNum 3000, ''0xtoken2'' \<mapsto> JNum 0],
      service = cachedService, remoteCall = Some ''0xtoken2''\<rparr>"
  by (simp add: eval_defs)

lemma eval_missing:
  "getTokenPrices (axiosResolves mockResponseMissing) 0 5 testService
       [''0xtoken1'', ''0xtoken2''] 1 =
     \<lparr>prices = [''0xtoken1'' \<mapsto> JNum 3000, ''0xtoken2'' \<mapsto> JNum 0],
      service = \<lparr>apiKey = ''test-api-key'',
                 priceCache = [''0xtoken1'' \<mapsto>
                   \<lparr>address = ''0xtoken1'', symbol = JStr ''WETH'', priceUsd = JNum 3000,
                    timestamp = 5\<rparr>]\<rparr>,
      remoteCall = Some ''0xtoken1,0xtoken2''\<rparr>"
  by (simp add: eval_defs)

lemma eval_without_data:
  "getTokenPrices (axiosResolves bodyWithoutData) 0 5 testService [''0xtoken1''] 1 =
     \<lparr>prices = Map.empty, service = testService, remoteCall = Some ''0xtoken1''\<rparr>"
  by (simp add: eval_defs)

lemma eval_not_json:
  "getTokenPrices (axiosResolves (JStr ''Bad Gateway'')) 0 5 testService [''0xtoken1''] 1 =
     \<lparr>prices = Map.empty, service = testService, remoteCall = Some ''0xtoken1''\<rparr>"
  by (simp add: eval_defs)

lemma lookup_fixtures:
  "getCachedPrice cachedService 10 ''0xToken1'' =
     Some \<lparr>address = ''0xtoken1'', symbol = JStr ''WETH'', priceUsd = JNum 3000, timestamp = 0\<rparr>"
  "getCachedPrice cachedService 10 ''0xtoken2'' = None"
  "getCachedPrice testService 0 ''0xtoken1'' = None"
  "getCachedPrice testService 0 ''0xtoken2'' = None"
  by (simp_all add: getCachedPrice_def CACHE_TTL_MS_def toLowerCase_def
      lowerChar_def cachedService_def testService_def)

section \<open>A quoted price that is not returned\<close>

lemma eval_without_data_two:
  "getTokenPrices (axiosResolves bodyWithoutData) 0 5 testService
       [''0xtoken1'', ''0xtoken2''] 1 =
     \<lparr>prices = Map.empty, service = testService, remoteCall = Some ''0xtoken1,0xtoken2''\<rparr>"
  by (simp add: eval_defs)

text \<open>
  C1. Two inputs on which a requested address does not get the entry of its quote or the
  entry 0. In the first the response quotes \<^verbatim>\<open>0xtoken1\<close> at 3000 and \<^verbatim>\<open>0xtoken2\<close> with the
  price \<^verbatim>\<open>null\<close>: the log line of \<^verbatim>\<open>0xtoken2\<close> throws, the \<^verbatim>\<open>catch\<close> overwrites
  every miss with 0, and \<^verbatim>\<open>0xtoken1\<close> is returned at 0 although its quote is well
  formed. In the second the body has no \<^verbatim>\<open>data\<close> and the requested addresses have no
  entry at all.
\<close>

theorem quoted_price_not_returned:
  "hasUsdQuote (getProp mockResponseNullPrice ''data'') ''0xtoken1''
   \<and> quotePrice (getProp mockResponseNullPrice ''data'') ''0xtoken1'' = JNum 3000
   \<and> prices (getTokenPrices (axiosResolves mockResponseNullPrice) 0 5 testService
        [''0xtoken1'', ''0xtoken2''] 1) ''0xtoken1'' = Some (JNum 0)
   \<and> prices (getTokenPrices (axiosResolves bodyWithoutData) 0 5 testService
        [''0xtoken1'', ''0xtoken2''] 1) ''0xtoken1'' = None
   \<and> prices (getTokenPrices (axiosResolves bodyWithoutData) 0 5 testService
        [''0xtoken1'', ''0xtoken2''] 1) ''0xtoken2'' = None"
  by (simp add: eval_null_price eval_without_data_two)
    (simp add: mockResponseNullPrice_def mockToken_def hasUsdQuote_def quotePrice_def)

section \<open>A response without data\<close>

text \<open>
  C2. The remote request resolves with status 2xx and a body that has no \<^verbatim>\<open>data\<close>
  field, or that is not JSON at all. The \<^verbatim>\<open>if (response.data && response.data.data)\<close>
  has no \<^verbatim>\<open>else\<close> and nothing is thrown, so neither the per-address zero nor the
  \<^verbatim>\<open>catch\<close> runs: the call returns normally, and the cache-miss address has no entry in
  the returned map instead of the price 0.
\<close>

theorem payload_without_data_no_entry:
  "remoteCall (getTokenPrices (axiosResolves bodyWithoutData) 0 5 testService [''0xtoken1''] 1)
       = Some ''0xtoken1''
   \<and> prices (getTokenPrices (axiosResolves bodyWithoutData) 0 5 testService [''0xtoken1''] 1)
       ''0xtoken1'' = None
   \<and> prices (getTokenPrices (axiosResolves (JStr ''Bad Gateway'')) 0 5 testService
       [''0xtoken1''] 1) ''0xtoken1'' = None"
  by (simp add: eval_without_data eval_not_json)

section \<open>Normalisation of the requested addresses\<close>

lemma count_list_filter:
  "count_list (filter P xs) k = (if P k then count_list xs k else 0)"
  by (induction xs) auto

text \<open>
  C6, as amended. The requested addresses are lowercased and not deduplicated. The list
  \<^verbatim>\<open>uncachedAddresses\<close> holds the lowercased addresses that miss the cache, in request
  order and once per occurrence in the request; with an API key, the one remote request is
  sent exactly when that list is not empty, and its \<^verbatim>\<open>address\<close> parameter is the list
  joined with commas.
\<close>

theorem lowercased_not_deduplicated:
  "uncachedAddresses s tc addrs =
      filter (\<lambda>k. getCachedPrice s tc k = None) (map toLowerCase addrs)
   \<and> count_list (uncachedAddresses s tc addrs) k =
        (if getCachedPrice s tc k = None then count_list (map toLowerCase addrs) k else 0)
   \<and> remoteCall (getTokenPrices ax tc ts s addrs cid) =
        (if apiKey s = [] \<or> uncachedAddresses s tc addrs = [] then None
         else Some (join_comma (uncachedAddresses s tc addrs)))"
  by (simp add: uncachedAddresses_filter count_list_filter remoteCall_getTokenPrices
      remoteAddresses_def)

theorem lowercased_not_deduplicated_witness:
  "uncachedAddresses testService 0 [''0xToken1'', ''0xtoken2'', ''0xtoken1'']
      = [''0xtoken1'', ''0xtoken2'', ''0xtoken1'']
   \<and> count_list (uncachedAddresses testService 0 [''0xToken1'', ''0xtoken2'', ''0xtoken1''])
        ''0xtoken1'' = 2
   \<and> remoteCall (getTokenPrices axiosRejects 0 5 testService
        [''0xToken1'', ''0xtoken2'', ''0xtoken1''] 1) = Some ''0xtoken1,0xtoken2,0xtoken1''"
proof -
  note inst = lowercased_not_deduplicated [of testService 0
      "[''0xToken1'', ''0xtoken2'', ''0xtoken1'']" "''0xtoken1''" axiosRejects 5 1]
  have key: "apiKey testService \<noteq> []"
    by (simp add: testService_def)
  have a: "uncachedAddresses testService 0 [''0xToken1'', ''0xtoken2'', ''0xtoken1'']
      = [''0xtoken1'', ''0xtoken2'', ''0xtoken1'']"
    by (simp add: inst [THEN conjunct1] lower_fixtures lookup_fixtures)
  have b: "count_list (uncachedAddresses testService 0 [''0xToken1'', ''0xtoken2'', ''0xtoken1''])
        ''0xtoken1'' = 2"
    by (simp add: inst [THEN conjunct2, THEN conjunct1] lower_fixtures lookup_fixtures)
  have c: "remoteCall (getTokenPrices axiosRejects 0 5 testService
        [''0xToken1'', ''0xtoken2'', ''0xtoken1''] 1) = Some ''0xtoken1,0xtoken2,0xtoken1''"
    by (simp add: inst [THEN conjunct2, THEN conjunct2] key a)
  from a b c show ?thesis by (intro conjI)
qed

text \<open>
  C6 as stated fails: two spellings of one uncached address are both looked up and both
  sent, so the address occurs twice in the batched remote request.
\<close>

theorem lowercased_not_deduplicated_counterexample:
  "uncachedAddresses testService 0 [''0xToken1'', ''0xtoken1''] = [''0xtoken1'', ''0xtoken1'']
   \<and> remoteCall (getTokenPrices axiosRejects 0 5 testService [''0xToken1'', ''0xtoken1''] 1)
        = Some ''0xtoken1,0xtoken1''"
  by (simp add: eval_defs)

section \<open>Two calls and the TTL\<close>

lemma remoteAddresses_lower:
  "k \<in> set (remoteAddresses s tc addrs) \<Longrightarrow> toLowerCase k = k"
  by (auto simp: remoteAddresses_def set_uncachedAddresses toLowerCase_idem split: if_splits)

lemma set_remoteAddresses:
  "set (remoteAddresses s tc addrs) =
     {k \<in> toLowerCase ` set addrs. apiKey s \<noteq> [] \<and> getCachedPrice s tc k = None}"
  by (auto simp: remoteAddresses_def set_uncachedAddresses)

lemma cached_after_quote:
  assumes "k \<in> set (remoteAddresses s tc addrs)"
    and "ax (join_comma (remoteAddresses s tc addrs)) = Resolved body"
    and "truthy body" and "truthy (getProp body ''data'')"
    and "hasUsdQuote (getProp body ''data'') k"
    and "\<forall>m\<in>set (remoteAddresses s tc addrs).
           hasUsdQuote (getProp body ''data'') m \<longrightarrow> logLinePrints (getProp body ''data'') m"
  shows "(k \<in> set (remoteAddresses (service (getTokenPrices ax tc ts s addrs cid)) tc' addrs')
            \<longleftrightarrow> k \<in> toLowerCase ` set addrs' \<and> tc' - ts > 60000)
    \<and> (toLowerCase a' = k \<longrightarrow>
         remoteCall (getTokenPrices ax' tc' ts' (service (getTokenPrices ax tc ts s addrs cid))
            [a'] cid') = (if tc' - ts > 60000 then Some k else None))"
proof -
  let ?s' = "service (getTokenPrices ax tc ts s addrs cid)"
  from assms(1) have key: "apiKey s \<noteq> []" and unc: "remoteAddresses s tc addrs = uncachedAddresses s tc addrs"
    by (auto simp: remoteAddresses_def split: if_splits)
  from assms(1) have lower: "toLowerCase k = k" by (rule remoteAddresses_lower)
  have "priceCache ?s' k =
      (if hasUsdQuote (getProp body ''data'') k
       then Some (cacheEntry (getProp body ''data'') ts k) else priceCache s k)"
    using key assms(1,2,3,4,6) unfolding unc by (rule prices_quoted(2))
  with assms(5) have cached: "priceCache ?s' k = Some (cacheEntry (getProp body ''data'') ts k)"
    by simp
  have lookup: "getCachedPrice ?s' tc' k = None \<longleftrightarrow> tc' - ts > 60000"
    by (simp add: getCachedPrice_def lower cached cacheEntry_def CACHE_TTL_MS_def)
  have key': "apiKey ?s' \<noteq> []"
    using key by (simp add: apiKey_getTokenPrices)
  have sent: "k \<in> set (remoteAddresses ?s' tc' addrs') \<longleftrightarrow> k \<in> toLowerCase ` set addrs' \<and> tc' - ts > 60000"
    by (simp add: set_remoteAddresses key' lookup)
  have alone: "remoteCall (getTokenPrices ax' tc' ts' ?s' [a'] cid')
      = (if tc' - ts > 60000 then Some k else None)" if "toLowerCase a' = k"
    using that lookup key'
    by (simp add: remoteCall_getTokenPrices remoteAddresses_def uncachedAddresses_filter)
  from sent alone show ?thesis by blast
qed

text \<open>A miss stays a miss at a later reading of the clock while its cache key is untouched.\<close>

lemma miss_later:
  "getCachedPrice s tc k = None \<Longrightarrow> tc \<le> tc' \<Longrightarrow>
   priceCache s' (toLowerCase k) = priceCache s (toLowerCase k) \<Longrightarrow>
     getCachedPrice s' tc' k = None"
  by (auto simp: getCachedPrice_def CACHE_TTL_MS_def split: option.splits if_splits)

lemma requested_again_without_quote:
  assumes sent: "k \<in> set (remoteAddresses s tc addrs)"
    and noquote: "ax (join_comma (remoteAddresses s tc addrs)) = Rejected
       \<or> (ax (join_comma (remoteAddresses s tc addrs)) = Resolved body
            \<and> \<not> (truthy body \<and> truthy (getProp body ''data'')
                    \<and> hasUsdQuote (getProp body ''data'') k))"
    and later: "tc \<le> tc'"
    and asked: "k \<in> toLowerCase ` set addrs'"
  shows "k \<in> set (remoteAddresses (service (getTokenPrices ax tc ts s addrs cid)) tc' addrs')"
proof -
  let ?s' = "service (getTokenPrices ax tc ts s addrs cid)"
  from sent have key: "apiKey s \<noteq> []"
    and unc: "remoteAddresses s tc addrs = uncachedAddresses s tc addrs"
    and miss: "getCachedPrice s tc k = None"
    by (auto simp: remoteAddresses_def set_uncachedAddresses split: if_splits)
  from sent have lower: "toLowerCase k = k" by (rule remoteAddresses_lower)
  have same: "priceCache ?s' k = priceCache s k"
  proof (rule ccontr)
    assume "priceCache ?s' k \<noteq> priceCache s k"
    then have "\<exists>b. ax (join_comma (uncachedAddresses s tc addrs)) = Resolved b
          \<and> truthy b \<and> truthy (getProp b ''data'') \<and> hasUsdQuote (getProp b ''data'') k"
      using priceCache_getTokenPrices_change [of ax tc ts s addrs cid k] by blast
    with noquote show False by (auto simp: unc)
  qed
  from miss later have "getCachedPrice ?s' tc' k = None"
    by (rule miss_later) (simp add: lower same)
  moreover have "apiKey ?s' \<noteq> []"
    using key by (simp add: apiKey_getTokenPrices)
  ultimately show ?thesis
    using asked by (simp add: set_remoteAddresses)
qed

lemma requested_by_overlapping_call:
  assumes "k \<in> set (remoteAddresses s tc addrs)" and "tc \<le> tc'"
    and "k \<in> toLowerCase ` set addrs'"
  shows "k \<in> set (remoteAddresses s tc' addrs')"
proof -
  from assms(1) have "apiKey s \<noteq> []" and "getCachedPrice s tc k = None"
    by (auto simp: set_remoteAddresses)
  moreover from this(2) assms(2) have "getCachedPrice s tc' k = None"
    by (rule miss_later) simp
  ultimately show ?thesis
    using assms(3) by (simp add: set_remoteAddresses)
qed

text \<open>
  C3, as amended. A first call, which reads the clock at \<open>tc\<close> for its cache check and at
  \<open>ts\<close> for its store loop, sends \<open>k\<close> in its remote request; \<open>tc'\<close> is the reading of the
  cache check of a second call.

  If the request resolves to a body with \<^verbatim>\<open>data\<close> that carries a USD quote for \<open>k\<close>, and
  the log lines of the quoted misses print (their prices are numbers), \<open>k\<close> is cached with
  the store time \<open>ts\<close>: a second call on the state the first call left, checking at
  \<open>tc' \<ge> ts\<close>, sends \<open>k\<close> in a remote request exactly when it is asked for \<open>k\<close> and
  \<open>tc' - ts > 60000\<close>, and a second call for \<open>k\<close> alone makes no remote call within the
  window and one remote call after it.

  If the request is rejected, or resolves to a body without \<^verbatim>\<open>data\<close> or without a USD
  quote for \<open>k\<close>, nothing is cached for \<open>k\<close>: a second call on the state the first call
  left, checking at \<open>tc' \<ge> tc\<close> and asked for \<open>k\<close>, sends \<open>k\<close> again.

  A second call that checks the cache while the first call is still awaiting its request,
  that is on the state \<open>s\<close> the first call started from, at \<open>tc' \<ge> tc\<close>, and that is asked
  for \<open>k\<close>, sends \<open>k\<close> as well.
\<close>

theorem cached_within_ttl:
  assumes "k \<in> set (remoteAddresses s tc addrs)"
  shows "(ax (join_comma (remoteAddresses s tc addrs)) = Resolved body
          \<and> truthy body \<and> truthy (getProp body ''data'')
          \<and> hasUsdQuote (getProp body ''data'') k
          \<and> (\<forall>m\<in>set (remoteAddresses s tc addrs).
                hasUsdQuote (getProp body ''data'') m \<longrightarrow>
                logLinePrints (getProp body ''data'') m)
          \<and> ts \<le> tc'
        \<longrightarrow> (k \<in> set (remoteAddresses (service (getTokenPrices ax tc ts s addrs cid)) tc' addrs')
                \<longleftrightarrow> k \<in> toLowerCase ` set addrs' \<and> tc' - ts > 60000)
          \<and> (toLowerCase a' = k \<longrightarrow>
                remoteCall (getTokenPrices ax' tc' ts'
                  (service (getTokenPrices ax tc ts s addrs cid)) [a'] cid')
                  = (if tc' - ts > 60000 then Some k else None)))
    \<and> ((ax (join_comma (remoteAddresses s tc addrs)) = Rejected
           \<or> (ax (join_comma (remoteAddresses s tc addrs)) = Resolved body
                \<and> \<not> (truthy body \<and> truthy (getProp body ''data'')
                        \<and> hasUsdQuote (getProp body ''data'') k)))
          \<and> tc \<le> tc' \<and> k \<in> toLowerCase ` set addrs'
        \<longrightarrow> k \<in> set (remoteAddresses (service (getTokenPrices ax tc ts s addrs cid)) tc' addrs'))
    \<and> (tc \<le> tc' \<and> k \<in> toLowerCase ` set addrs'
        \<longrightarrow> k \<in> set (remoteAddresses s tc' addrs'))"
proof -
  have quoted: "ax (join_comma (remoteAddresses s tc addrs)) = Resolved body
          \<and> truthy body \<and> truthy (getProp body ''data'')
          \<and> hasUsdQuote (getProp body ''data'') k
          \<and> (\<forall>m\<in>set (remoteAddresses s tc addrs).
                hasUsdQuote (getProp body ''data'') m \<longrightarrow>
                logLinePrints (getProp body ''data'') m)
          \<and> ts \<le> tc'
        \<longrightarrow> (k \<in> set (remoteAddresses (service (getTokenPrices ax tc ts s addrs cid)) tc' addrs')
                \<longleftrightarrow> k \<in> toLowerCase ` set addrs' \<and> tc' - ts > 60000)
          \<and> (toLowerCase a' = k \<longrightarrow>
                remoteCall (getTokenPrices ax' tc' ts'
                  (service (getTokenPrices ax tc ts s addrs cid)) [a'] cid')
                  = (if tc' - ts > 60000 then Some k else None))"
  proof (rule impI, elim conjE)
    assume "ax (join_comma (remoteAddresses s tc addrs)) = Resolved body"
      "truthy body" "truthy (getProp body ''data'')"
      "hasUsdQuote (getProp body ''data'') k"
      "\<forall>m\<in>set (remoteAddresses s tc addrs).
          hasUsdQuote (getProp body ''data'') m \<longrightarrow> logLinePrints (getProp body ''data'') m"
    with assms show "(k \<in> set (remoteAddresses (service (getTokenPrices ax tc ts s addrs cid))
                       tc' addrs')
                \<longleftrightarrow> k \<in> toLowerCase ` set addrs' \<and> tc' - ts > 60000)
          \<and> (toLowerCase a' = k \<longrightarrow>
                remoteCall (getTokenPrices ax' tc' ts'
                  (service (getTokenPrices ax tc ts s addrs cid)) [a'] cid')
                  = (if tc' - ts > 60000 then Some k else None))"
      by (rule cached_after_quote [where ax=ax])
  qed
  have unquoted: "(ax (join_comma (remoteAddresses s tc addrs)) = Rejected
           \<or> (ax (join_comma (remoteAddresses s tc addrs)) = Resolved body
                \<and> \<not> (truthy body \<and> truthy (getProp body ''data'')
                        \<and> hasUsdQuote (getProp body ''data'') k)))
          \<and> tc \<le> tc' \<and> k \<in> toLowerCase ` set addrs'
        \<longrightarrow> k \<in> set (remoteAddresses (service (getTokenPrices ax tc ts s addrs cid)) tc' addrs')"
  proof (rule impI, elim conjE)
    assume "ax (join_comma (remoteAddresses s tc addrs)) = Rejected
           \<or> (ax (join_comma (remoteAddresses s tc addrs)) = Resolved body
                \<and> \<not> (truthy body \<and> truthy (getProp body ''data'')
                        \<and> hasUsdQuote (getProp body ''data'') k))"
      "tc \<le> tc'" "k \<in> toLowerCase ` set addrs'"
    with assms show "k \<in> set (remoteAddresses (service (getTokenPrices ax tc ts s addrs cid))
        tc' addrs')"
      by (rule requested_again_without_quote [where ax=ax])
  qed
  have overlapping: "tc \<le> tc' \<and> k \<in> toLowerCase ` set addrs'
        \<longrightarrow> k \<in> set (remoteAddresses s tc' addrs')"
    using assms by (auto intro: requested_by_overlapping_call)
  show ?thesis
    by (rule conjI [OF quoted conjI [OF unquoted overlapping]])
qed

lemma eval_rejected:
  "getTokenPrices axiosRejects tc ts testService [''0xtoken1''] cid =
     \<lparr>prices = [''0xtoken1'' \<mapsto> JNum 0], service = testService,
      remoteCall = Some ''0xtoken1''\<rparr>"
  by (simp add: eval_defs)

lemma remote_fixtures:
  "remoteAddresses testService 0 [''0xtoken1''] = [''0xtoken1'']"
  by (simp add: remoteAddresses_def uncachedAddresses_filter lower_fixtures lookup_fixtures)
    (simp add: testService_def)

lemma mockResponse_fixtures:
  "truthy mockResponse"
  "truthy (getProp mockResponse ''data'')"
  "hasUsdQuote (getProp mockResponse ''data'') ''0xtoken1''"
  "logLinePrints (getProp mockResponse ''data'') ''0xtoken1''"
  by (simp_all add: mockResponse_def mockToken_def hasUsdQuote_def quotePrice_def
      logLinePrints_def quoteSymbol_def js_or_def)

theorem cached_within_ttl_witness:
  "''0xtoken1'' \<in> set (remoteAddresses testService 0 [''0xtoken1''])
   \<and> remoteCall (getTokenPrices axiosRejects 60005 60010
         (service (getTokenPrices (axiosResolves mockResponse) 0 5 testService [''0xtoken1''] 1))
         [''0xToken1''] 1) = None
   \<and> remoteCall (getTokenPrices axiosRejects 60006 60010
         (service (getTokenPrices (axiosResolves mockResponse) 0 5 testService [''0xtoken1''] 1))
         [''0xToken1''] 1) = Some ''0xtoken1''
   \<and> ''0xtoken1'' \<in> set (remoteAddresses
         (service (getTokenPrices axiosRejects 0 5 testService [''0xtoken1''] 1))
         10 [''0xToken1''])
   \<and> ''0xtoken1'' \<in> set (remoteAddresses testService 3 [''0xToken1''])"
proof -
  have sent: "''0xtoken1'' \<in> set (remoteAddresses testService 0 [''0xtoken1''])"
    by (simp add: remote_fixtures)
  have resolved: "axiosResolves mockResponse (join_comma (remoteAddresses testService 0
      [''0xtoken1''])) = Resolved mockResponse"
    by (simp add: axiosResolves_def)
  have numeric: "\<forall>m\<in>set (remoteAddresses testService 0 [''0xtoken1'']).
      hasUsdQuote (getProp mockResponse ''data'') m \<longrightarrow>
      logLinePrints (getProp mockResponse ''data'') m"
    by (simp add: remote_fixtures mockResponse_fixtures)
  have asked: "''0xtoken1'' \<in> toLowerCase ` set [''0xToken1'']"
    by (simp add: lower_fixtures)
  have rejected: "axiosRejects (join_comma (remoteAddresses testService 0 [''0xtoken1'']))
      = Rejected"
    by (simp add: axiosRejects_def)
  note within = cached_within_ttl [where ax="axiosResolves mockResponse" and ts=5
      and tc'=60005 and body=mockResponse and a'="''0xToken1''" and ax'=axiosRejects
      and ts'=60010 and cid=1 and cid'=1,
      OF sent, THEN conjunct1, THEN mp, THEN conjunct2, THEN mp, OF _ lower_fixtures(1)]
  note after = cached_within_ttl [where ax="axiosResolves mockResponse" and ts=5
      and tc'=60006 and body=mockResponse and a'="''0xToken1''" and ax'=axiosRejects
      and ts'=60010 and cid=1 and cid'=1,
      OF sent, THEN conjunct1, THEN mp, THEN conjunct2, THEN mp, OF _ lower_fixtures(1)]
  note again = cached_within_ttl [where ax=axiosRejects and ts=5 and tc'=10
      and addrs'="[''0xToken1'']" and cid=1,
      OF sent, THEN conjunct2, THEN conjunct1, THEN mp]
  note overlap = cached_within_ttl [where tc'=3 and addrs'="[''0xToken1'']",
      OF sent, THEN conjunct2, THEN conjunct2, THEN mp]
  have a: "remoteCall (getTokenPrices axiosRejects 60005 60010
         (service (getTokenPrices (axiosResolves mockResponse) 0 5 testService [''0xtoken1''] 1))
         [''0xToken1''] 1) = None"
    using within resolved numeric by (simp add: mockResponse_fixtures)
  have b: "remoteCall (getTokenPrices axiosRejects 60006 60010
         (service (getTokenPrices (axiosResolves mockResponse) 0 5 testService [''0xtoken1''] 1))
         [''0xToken1''] 1) = Some ''0xtoken1''"
    using after resolved numeric by (simp add: mockResponse_fixtures)
  have c: "''0xtoken1'' \<in> set (remoteAddresses
         (service (getTokenPrices axiosRejects 0 5 testService [''0xtoken1''] 1))
         10 [''0xToken1''])"
    using again rejected asked by simp
  have d: "''0xtoken1'' \<in> set (remoteAddresses testService 3 [''0xToken1''])"
    using overlap asked by simp
  from sent a b c d show ?thesis by (intro conjI)
qed

text \<open>
  C3 as stated fails: the first call's remote request is rejected, nothing is cached, and
  a second call for the same address 10 ms later makes a second remote call.
\<close>

theorem cached_within_ttl_counterexample:
  "remoteCall (getTokenPrices axiosRejects 0 5 testService [''0xtoken1''] 1) = Some ''0xtoken1''
   \<and> remoteCall (getTokenPrices axiosRejects 10 15
        (service (getTokenPrices axiosRejects 0 5 testService [''0xtoken1''] 1))
        [''0xtoken1''] 1) = Some ''0xtoken1''"
  by (simp add: eval_rejected)

section \<open>Validation in the positions route\<close>

lemma matchesAddress_iff:
  "matchesAddress w \<longleftrightarrow>
     (\<exists>h. w = codeUnits ''0x'' @ h \<and> length h = 40 \<and> (\<forall>c\<in>set h. isHexDigit c))"
proof
  assume m: "matchesAddress w"
  then have "w = codeUnits ''0x'' @ drop 2 w"
    by (metis append_take_drop_id matchesAddress_def)
  moreover from m have "length (drop 2 w) = 40"
    by (simp add: matchesAddress_def)
  moreover from m have "\<forall>c\<in>set (drop 2 w). isHexDigit c"
    by (simp add: matchesAddress_def list_all_iff)
  ultimately show "\<exists>h. w = codeUnits ''0x'' @ h \<and> length h = 40
      \<and> (\<forall>c\<in>set h. isHexDigit c)"
    by blast
next
  assume "\<exists>h. w = codeUnits ''0x'' @ h \<and> length h = 40 \<and> (\<forall>c\<in>set h. isHexDigit c)"
  then obtain h where h: "w = codeUnits ''0x'' @ h" "length h = 40"
      "\<forall>c\<in>set h. isHexDigit c"
    by blast
  from h(3) have "list_all isHexDigit h"
    by (simp add: list_all_iff)
  moreover have "length (codeUnits ''0x'') = 2"
    by (simp add: codeUnits_def)
  ultimately show "matchesAddress w"
    using h(1,2) by (simp add: matchesAddress_def)
qed

lemma positionsHandler_bad_address:
  "\<not> matchesAddress w \<Longrightarrow> positionsHandler w q = Respond invalidAddress"
  by (simp add: positionsHandler_def)

lemma positionsHandler_bad_chain:
  "matchesAddress w \<Longrightarrow> paramTruthy v \<Longrightarrow> chainIdStr v = Some str \<Longrightarrow>
   parseInt10 str \<notin> Some ` set SUPPORTED_CHAIN_IDS \<Longrightarrow>
     positionsHandler w (Some v) = Respond invalidChainId"
  by (auto simp: positionsHandler_def matchesAddress_def split: option.splits)

text \<open>
  When \<^verbatim>\<open>String\<close> throws on the parameter, the handler neither responds nor calls the
  core.
\<close>

lemma positionsHandler_throws:
  "matchesAddress w \<Longrightarrow> paramTruthy v \<Longrightarrow> chainIdStr v = None \<Longrightarrow>
     positionsHandler w (Some v) = ThrowsTypeError"
  by (auto simp: positionsHandler_def matchesAddress_def)

lemma positionsHandler_call:
  assumes "positionsHandler w q = CallGetPositions w' c"
  shows "w' = w \<and> matchesAddress w
     \<and> (case c of
          None \<Rightarrow> q = None \<or> q = Some (QStr [])
        | Some n \<Rightarrow> n \<in> set SUPPORTED_CHAIN_IDS
            \<and> (\<exists>v str. q = Some v \<and> paramTruthy v \<and> chainIdStr v = Some str
                  \<and> parseInt10 str = Some n))"
proof -
  from assms have m: "matchesAddress w" and ne: "w \<noteq> []"
    by (auto simp: positionsHandler_def split: if_splits)
  show ?thesis
  proof (cases q)
    case None
    with assms m ne show ?thesis by (simp add: positionsHandler_def)
  next
    case (Some v)
    show ?thesis
    proof (cases "paramTruthy v")
      case False
      then have "v = QStr []" by (cases v) simp_all
      with assms m ne Some show ?thesis by (simp add: positionsHandler_def)
    next
      case True
      with assms m ne Some show ?thesis
        by (auto simp: positionsHandler_def split: option.splits if_splits)
    qed
  qed
qed

text \<open>
  C8, as amended. The route answers 400 with the \<^verbatim>\<open>INVALID_REQUEST\<close> envelope, without
  calling the core, for every wallet address that is not \<^verbatim>\<open>0x\<close> followed by exactly 40
  hexadecimal digits of either case, and for every request with such an address and a
  non-empty \<^verbatim>\<open>chainId\<close> parameter that \<^verbatim>\<open>String\<close> converts to a string whose
  \<^verbatim>\<open>parseInt(..., 10)\<close> is \<^verbatim>\<open>NaN\<close> or not one of 1, 56, 8453, 42161, 1301. The core is
  called only with the address as given, which matches, and either with no chain id, when
  the parameter is absent or empty, or with the integer read from the front of the
  converted parameter, which is a supported chain id.
\<close>

theorem positions_route_validation:
  "(\<not> (\<exists>h. w = codeUnits ''0x'' @ h \<and> length h = 40 \<and> (\<forall>c\<in>set h. isHexDigit c))
       \<longrightarrow> positionsHandler w q = Respond invalidAddress)
   \<and> ((\<exists>h. w = codeUnits ''0x'' @ h \<and> length h = 40 \<and> (\<forall>c\<in>set h. isHexDigit c))
        \<and> paramTruthy v \<and> chainIdStr v = Some str
        \<and> parseInt10 str \<notin> Some ` {1, 56, 8453, 42161, 1301}
       \<longrightarrow> positionsHandler w (Some v) = Respond invalidChainId)
   \<and> (positionsHandler w q = CallGetPositions w' c
       \<longrightarrow> w' = w
         \<and> (\<exists>h. w = codeUnits ''0x'' @ h \<and> length h = 40 \<and> (\<forall>c\<in>set h. isHexDigit c))
         \<and> (case c of
              None \<Rightarrow> q = None \<or> q = Some (QStr [])
            | Some n \<Rightarrow> n \<in> {1, 56, 8453, 42161, 1301}
                \<and> (\<exists>v str. q = Some v \<and> paramTruthy v \<and> chainIdStr v = Some str
                      \<and> parseInt10 str = Some n)))
   \<and> httpStatus invalidAddress = 400 \<and> \<not> responseSuccess invalidAddress
   \<and> responseError invalidAddress = INVALID_REQUEST
   \<and> httpStatus invalidChainId = 400 \<and> \<not> responseSuccess invalidChainId
   \<and> responseError invalidChainId = INVALID_REQUEST"
proof -
  have ids: "set SUPPORTED_CHAIN_IDS = {1, 56, 8453, 42161, 1301}"
    by (simp add: SUPPORTED_CHAIN_IDS_def)
  have address: "\<not> (\<exists>h. w = codeUnits ''0x'' @ h \<and> length h = 40
        \<and> (\<forall>c\<in>set h. isHexDigit c))
       \<longrightarrow> positionsHandler w q = Respond invalidAddress"
    unfolding matchesAddress_iff [symmetric]
    by (rule impI) (rule positionsHandler_bad_address)
  have chain: "(\<exists>h. w = codeUnits ''0x'' @ h \<and> length h = 40
        \<and> (\<forall>c\<in>set h. isHexDigit c))
        \<and> paramTruthy v \<and> chainIdStr v = Some str
        \<and> parseInt10 str \<notin> Some ` {1, 56, 8453, 42161, 1301}
       \<longrightarrow> positionsHandler w (Some v) = Respond invalidChainId"
    unfolding matchesAddress_iff [symmetric] ids [symmetric]
    by (auto intro: positionsHandler_bad_chain)
  have call: "positionsHandler w q = CallGetPositions w' c
       \<longrightarrow> w' = w
         \<and> (\<exists>h. w = codeUnits ''0x'' @ h \<and> length h = 40 \<and> (\<forall>c\<in>set h. isHexDigit c))
         \<and> (case c of
              None \<Rightarrow> q = None \<or> q = Some (QStr [])
            | Some n \<Rightarrow> n \<in> {1, 56, 8453, 42161, 1301}
                \<and> (\<exists>v str. q = Some v \<and> paramTruthy v \<and> chainIdStr v = Some str
                      \<and> parseInt10 str = Some n))"
    unfolding matchesAddress_iff [symmetric] ids [symmetric]
    by (rule impI) (rule positionsHandler_call)
  have envelope: "httpStatus invalidAddress = 400 \<and> \<not> responseSuccess invalidAddress
   \<and> responseError invalidAddress = INVALID_REQUEST
   \<and> httpStatus invalidChainId = 400 \<and> \<not> responseSuccess invalidChainId
   \<and> responseError invalidChainId = INVALID_REQUEST"
    by (simp add: invalidAddress_def invalidChainId_def)
  show ?thesis
    by (rule conjI [OF address conjI [OF chain conjI [OF call envelope]]])
qed

lemma exampleWallet_matches: "matchesAddress exampleWallet"
  by (simp add: exampleWallet_def matchesAddress_def isHexDigit_def codeUnits_def)

lemmas parseInt10_defs = parseInt10_def isWhiteSpace_def isDigit_def digitsValue_def
  digitValue_def codeUnits_def Let_def

lemma parseInt10_fixtures:
  "parseInt10 (codeUnits ''999'') = Some 999"
  "parseInt10 (codeUnits ''8453'') = Some 8453"
  "parseInt10 (codeUnits ''1abc'') = Some 1"
  "parseInt10 (codeUnits '' -12'') = Some (- 12)"
  "parseInt10 (codeUnits ''abc'') = None"
  "parseInt10 (codeUnits ''undefined'') = None"
  "parseInt10 (codeUnits ''[object Object]'') = None"
  by (simp_all add: parseInt10_defs)

text \<open>
  \<^verbatim>\<open>chainId=%C2%A01\<close>: the no-break space U+00A0 before the digit is white space, the
  parameter reads as 1.
\<close>

lemma parseInt10_no_break_space:
  "parseInt10 (0xA0 # codeUnits ''1'') = Some 1"
  by (simp add: parseInt10_defs)

lemma eval_route:
  "positionsHandler exampleWallet (Some (QStr (codeUnits ''8453'')))
     = CallGetPositions exampleWallet (Some 8453)"
  "positionsHandler exampleWallet (Some (QStr (codeUnits ''1abc'')))
     = CallGetPositions exampleWallet (Some 1)"
  "positionsHandler exampleWallet (Some (QStr (codeUnits ''999''))) = Respond invalidChainId"
  "positionsHandler exampleWallet (Some (QObj [(codeUnits ''a'', QStr (codeUnits ''1''))]))
     = Respond invalidChainId"
  "positionsHandler exampleWallet
      (Some (QArr [QStr (codeUnits ''56''), QStr (codeUnits ''999'')]))
     = CallGetPositions exampleWallet (Some 56)"
  using exampleWallet_matches
  by (auto simp: positionsHandler_def parseInt10_fixtures SUPPORTED_CHAIN_IDS_def
      matchesAddress_def)
    (simp_all add: parseInt10_defs SUPPORTED_CHAIN_IDS_def)

text \<open>
  \<^verbatim>\<open>chainId[toString]=1\<close>: \<^verbatim>\<open>String\<close> throws on the parsed object, also when it is the
  first element of an array.
\<close>

lemma eval_route_throws:
  "positionsHandler exampleWallet
      (Some (QObj [(codeUnits ''toString'', QStr (codeUnits ''1''))])) = ThrowsTypeError"
  "positionsHandler exampleWallet
      (Some (QArr [QObj [(codeUnits ''toString'', QStr (codeUnits ''1''))]])) = ThrowsTypeError"
  using exampleWallet_matches
  by (simp_all add: positionsHandler_throws)

theorem positions_route_validation_witness:
  "positionsHandler (codeUnits ''invalid'') None = Respond invalidAddress
   \<and> positionsHandler exampleWallet (Some (QStr (codeUnits ''999''))) = Respond invalidChainId
   \<and> positionsHandler exampleWallet (Some (QStr (codeUnits ''8453'')))
        = CallGetPositions exampleWallet (Some 8453)
   \<and> (\<exists>h. exampleWallet = codeUnits ''0x'' @ h \<and> length h = 40 \<and> (\<forall>c\<in>set h. isHexDigit c))"
proof -
  have bad: "\<not> (\<exists>h. codeUnits ''invalid'' = codeUnits ''0x'' @ h \<and> length h = 40
      \<and> (\<forall>c\<in>set h. isHexDigit c))"
    by (simp add: codeUnits_def)
  have good: "\<exists>h. exampleWallet = codeUnits ''0x'' @ h \<and> length h = 40 \<and> (\<forall>c\<in>set h. isHexDigit c)"
    using exampleWallet_matches by (simp only: matchesAddress_iff)
  have converted: "chainIdStr (QStr (codeUnits ''999'')) = Some (codeUnits ''999'')"
    by simp
  have unsupported: "parseInt10 (codeUnits ''999'') \<notin> Some ` {1, 56, 8453, 42161, 1301}"
    by (simp add: parseInt10_fixtures)
  have given: "paramTruthy (QStr (codeUnits ''999''))"
    by (simp add: codeUnits_def)
  have a: "positionsHandler (codeUnits ''invalid'') None = Respond invalidAddress"
    by (rule positions_route_validation [THEN conjunct1, THEN mp, OF bad])
  have b: "positionsHandler exampleWallet (Some (QStr (codeUnits ''999''))) = Respond invalidChainId"
    by (rule positions_route_validation [THEN conjunct2, THEN conjunct1, THEN mp,
          OF conjI [OF good conjI [OF given conjI [OF converted unsupported]]]])
  note call = positions_route_validation [of exampleWallet "Some (QStr (codeUnits ''8453''))"
      "QStr (codeUnits ''8453'')" "codeUnits ''8453''" exampleWallet "Some 8453",
      THEN conjunct2, THEN conjunct2, THEN conjunct1, THEN mp,
      OF eval_route(1), THEN conjunct2, THEN conjunct1]
  from a b eval_route(1) call show ?thesis by (intro conjI)
qed

text \<open>
  C8 as stated fails: the parameter \<^verbatim>\<open>chainId=1abc\<close> is none of the five supported ids,
  yet \<^verbatim>\<open>parseInt\<close> reads 1 from it and the request reaches the core as chain 1.
\<close>

theorem positions_route_validation_counterexample:
  "codeUnits ''1abc'' \<notin> set (map codeUnits [''1'', ''56'', ''8453'', ''42161'', ''1301''])
   \<and> positionsHandler exampleWallet (Some (QStr (codeUnits ''1abc'')))
        = CallGetPositions exampleWallet (Some 1)"
  by (simp add: eval_route) (simp add: codeUnits_def)

section \<open>The aggregation layer\<close>

lemma collectChains_positions:
  "fst (collectChains f cs) =
     concat (map (\<lambda>c. case f c of Inl reason \<Rightarrow> [] | Inr found \<Rightarrow> found) cs)"
  by (induction cs) (auto split: sum.splits)

lemma collectChains_errors:
  "snd (collectChains f cs) =
     map (\<lambda>c. \<lparr>errorChainId = c, errorText = projl (f c)\<rparr>) (filter (\<lambda>c. isl (f c)) cs)"
  by (induction cs) (auto split: sum.splits)

lemma collectChains_all_fail:
  "\<forall>c\<in>set cs. isl (f c) \<Longrightarrow> fst (collectChains f cs) = []"
  by (induction cs) (auto split: sum.splits)

text \<open>
  C7. The result of \<^verbatim>\<open>getPositions\<close> is always marked successful. Its \<^verbatim>\<open>chainErrors\<close>
  are the chains of the chain set whose fetch failed, each with its failure reason. When
  every chain of the chain set fails, the position list is empty, both totals are 0 and
  \<^verbatim>\<open>chainErrors\<close> has one entry for each chain of the chain set.
\<close>

theorem getPositions_always_succeeds:
  "success (getPositions fetch pricing w fc)
   \<and> chainErrors (getPositions fetch pricing w fc) =
        map (\<lambda>c. \<lparr>errorChainId = c, errorText = projl (fetch w c)\<rparr>)
          (filter (\<lambda>c. isl (fetch w c)) (resolveChains fc))
   \<and> ((\<forall>c\<in>set (resolveChains fc). isl (fetch w c)) \<longrightarrow>
        positions (getPositions fetch pricing w fc) = []
        \<and> totalValueUsd (getPositions fetch pricing w fc) = 0
        \<and> totalFeesUsd (getPositions fetch pricing w fc) = 0
        \<and> map errorChainId (chainErrors (getPositions fetch pricing w fc)) = resolveChains fc)"
proof -
  have ok: "success (getPositions fetch pricing w fc)"
    by (simp add: getPositions_def Let_def)
  have errors: "chainErrors (getPositions fetch pricing w fc) =
        map (\<lambda>c. \<lparr>errorChainId = c, errorText = projl (fetch w c)\<rparr>)
          (filter (\<lambda>c. isl (fetch w c)) (resolveChains fc))"
    by (simp add: getPositions_def Let_def collectChains_errors)
  have all_fail: "positions (getPositions fetch pricing w fc) = []
        \<and> totalValueUsd (getPositions fetch pricing w fc) = 0
        \<and> totalFeesUsd (getPositions fetch pricing w fc) = 0
        \<and> map errorChainId (chainErrors (getPositions fetch pricing w fc)) = resolveChains fc"
    if fail: "\<forall>c\<in>set (resolveChains fc). isl (fetch w c)"
  proof -
    from fail have none: "fst (collectChains (fetch w) (resolveChains fc)) = []"
      by (rule collectChains_all_fail)
    from fail have all: "filter (\<lambda>c. isl (fetch w c)) (resolveChains fc) = resolveChains fc"
      by (simp add: filter_id_conv)
    show ?thesis
      by (simp add: errors all comp_def) (simp add: getPositions_def Let_def none)
  qed
  from ok errors all_fail show ?thesis by blast
qed

lemma resolveChains_fixtures:
  "resolveChains (Some 99999) = [99999]"
  "resolveChains None = [1, 56, 8453, 42161, 1301]"
  by (simp_all add: resolveChains_def SUPPORTED_CHAIN_IDS_def)

theorem getPositions_always_succeeds_witness:
  "success (getPositions fetchRejects mockPricing zeroWallet (Some 99999))
   \<and> positions (getPositions fetchRejects mockPricing zeroWallet (Some 99999)) = []
   \<and> totalValueUsd (getPositions fetchRejects mockPricing zeroWallet (Some 99999)) = 0
   \<and> totalFeesUsd (getPositions fetchRejects mockPricing zeroWallet (Some 99999)) = 0
   \<and> chainErrors (getPositions fetchRejects mockPricing zeroWallet (Some 99999))
       = [\<lparr>errorChainId = 99999, errorText = ''GraphQL query failed''\<rparr>]
   \<and> map errorChainId (chainErrors (getPositions fetchRejects mockPricing zeroWallet None))
       = [1, 56, 8453, 42161, 1301]
   \<and> positions (getPositions fetchRejects mockPricing zeroWallet None) = []"
proof -
  have fail: "\<forall>c\<in>set (resolveChains fc). isl (fetchRejects zeroWallet c)" for fc
    by (simp add: fetchRejects_def)
  note one = getPositions_always_succeeds [of fetchRejects mockPricing zeroWallet "Some 99999"]
  note every = getPositions_always_succeeds [of fetchRejects mockPricing zeroWallet None]
  have errors: "chainErrors (getPositions fetchRejects mockPricing zeroWallet (Some 99999))
       = [\<lparr>errorChainId = 99999, errorText = ''GraphQL query failed''\<rparr>]"
    by (simp add: one [THEN conjunct2, THEN conjunct1] resolveChains_fixtures fetchRejects_def)
  from one [THEN conjunct1]
    one [THEN conjunct2, THEN conjunct2, THEN mp, OF fail]
    every [THEN conjunct2, THEN conjunct2, THEN mp, OF fail]
    errors
  show ?thesis by (simp add: resolveChains_fixtures)
qed

end
